theory Spec2Isabelle
  imports Main "HOL-Library.Multiset"
begin

section \<open>Persisted data: chats and messages\<close>

text \<open>
  The relational store holds two tables. A table is the list of its rows; a row is a
  record with one field per column. Identifiers are opaque strings, timestamps are
  abstract clock readings, and the \<open>order\<close> column is a non-negative integer.
  The list order of a table is its physical order, which a query without \<open>ORDER BY\<close>
  may return in any arrangement. A message row is also the value object handed to an
  insert, where \<open>parts\<close> may be missing (\<open>None\<close>); the migration of the repository
  makes the column \<open>parts\<close> NOT NULL, so stored rows always have it.
\<close>

type_synonym ident = string
type_synonym timestamp = nat

text \<open>A message part is a tagged union: text, tool invocation, or some other kind.\<close>

record tool_invocation =
  ti_toolName :: string
  ti_state :: string
  ti_args :: string
  ti_result :: "string option"

datatype part =
    TextPart string
  | ToolInvocationPart tool_invocation
  | OtherPart string

record chat =
  chat_id :: ident
  chat_userId :: ident
  chat_title :: string
  chat_createdAt :: timestamp

record message_row =
  msg_id :: ident
  msg_chatId :: ident
  msg_role :: string
  msg_parts :: "part list option"
  msg_order :: nat
  msg_createdAt :: timestamp

record db =
  chats :: "chat list"
  messages :: "message_row list"

text \<open>
  A message as the client sends it and as the SDK's merge returns it (\<open>Message\<close> of the
  \<open>ai\<close> package): identifier, role, plain content and structured parts. An empty
  identifier stands for a missing one; both are falsy in the source. The parts are
  optional in that type: \<open>None\<close> is a message without \<open>parts\<close>.
\<close>

record ui_message =
  m_id :: ident
  m_role :: string
  m_content :: string
  m_parts :: "part list option"

section \<open>chat-helpers.ts\<close>

text \<open>
  \<open>upsertChat\<close>: \<open>insert ... on conflict (id) do update set title = chat.title
  returning *\<close>. When a row with the same id exists, that row keeps every column but
  the title; otherwise the new row is appended. The returned row is the first component.
\<close>

definition upsertChat :: "chat \<Rightarrow> db \<Rightarrow> chat option \<times> db" where
  "upsertChat c d =
     (let rows =
        (if list_ex (\<lambda>r. chat_id r = chat_id c) (chats d)
         then map (\<lambda>r. if chat_id r = chat_id c then r\<lparr>chat_title := chat_title c\<rparr> else r)
                (chats d)
         else chats d @ [c])
      in (find (\<lambda>r. chat_id r = chat_id c) rows, d\<lparr>chats := rows\<rparr>))"

text \<open>
  \<open>getChat\<close>: the first chat with the given id and owner, together with the message
  rows of that chat in ascending \<open>order\<close>; \<open>None\<close> stands for \<open>null\<close>.
\<close>

definition getChat :: "ident \<Rightarrow> ident \<Rightarrow> db \<Rightarrow> (chat \<times> message_row list) option" where
  "getChat chatId userId d =
     (case find (\<lambda>c. chat_id c = chatId \<and> chat_userId c = userId) (chats d) of
        None \<Rightarrow> None
      | Some c \<Rightarrow>
          Some (c, sort_key msg_order (filter (\<lambda>m. msg_chatId m = chatId) (messages d))))"

text \<open>\<open>getChats\<close>: all chats of a user, by creation time.\<close>

definition getChats :: "ident \<Rightarrow> db \<Rightarrow> chat list" where
  "getChats userId d = sort_key chat_createdAt (filter (\<lambda>c. chat_userId c = userId) (chats d))"

section \<open>The day-1 route: persisting a finished turn\<close>

text \<open>
  \<open>onFinish\<close> of \<open>route.ts\<close> maps the merged messages to rows. The row id is the
  message's own id when it has one and a fresh \<open>nanoid()\<close> otherwise; \<open>gen k\<close> is the
  result of the \<open>k\<close>-th call of \<open>nanoid\<close>, and \<open>i\<close> is the array index.
\<close>

fun message_rows ::
  "(nat \<Rightarrow> ident) \<Rightarrow> nat \<Rightarrow> ident \<Rightarrow> timestamp \<Rightarrow> nat \<Rightarrow> ui_message list \<Rightarrow> message_row list"
where
  "message_rows gen k cid t i [] = []"
| "message_rows gen k cid t i (m # ms) =
     (if m_id m \<noteq> []
      then \<lparr>msg_id = m_id m, msg_chatId = cid, msg_role = m_role m, msg_parts = m_parts m,
            msg_order = i, msg_createdAt = t\<rparr> # message_rows gen k cid t (Suc i) ms
      else \<lparr>msg_id = gen k, msg_chatId = cid, msg_role = m_role m, msg_parts = m_parts m,
            msg_order = i, msg_createdAt = t\<rparr> # message_rows gen (Suc k) cid t (Suc i) ms)"

text \<open>
  The two statements of \<open>onFinish\<close>: delete every message row of the chat, then insert
  the rows of the merged list. They are two separate statements, outside any
  transaction. The insert is one statement: the store rejects it as a whole, with an
  exception, when a row has no \<open>parts\<close> (the column is NOT NULL), and the delete
  before it stays done. The other constraints of the schema (keys, references) are not
  among the sources and are not part of the model.
\<close>

type_synonym exn = string

definition delete_messages :: "ident \<Rightarrow> db \<Rightarrow> db" where
  "delete_messages cid d = d\<lparr>messages := filter (\<lambda>m. msg_chatId m \<noteq> cid) (messages d)\<rparr>"

definition insert_messages :: "message_row list \<Rightarrow> db \<Rightarrow> exn + db" where
  "insert_messages rows d =
     (if list_all (\<lambda>r. msg_parts r \<noteq> None) rows
      then Inr (d\<lparr>messages := messages d @ rows\<rparr>)
      else Inl ''null value in column parts violates not-null constraint'')"

text \<open>
  The result is the exception that leaves \<open>onFinish\<close>, if any, and the database as
  the two statements leave it.
\<close>

definition replace_messages ::
  "(nat \<Rightarrow> ident) \<Rightarrow> nat \<Rightarrow> timestamp \<Rightarrow> ident \<Rightarrow> ui_message list \<Rightarrow> db
     \<Rightarrow> exn option \<times> db" where
  "replace_messages gen k t cid updatedMessages d =
     (let d1 = delete_messages cid d
      in case insert_messages (message_rows gen k cid t 0 updatedMessages) d1 of
           Inl e \<Rightarrow> (Some e, d1)
         | Inr d2 \<Rightarrow> (None, d2))"

section \<open>The tools of the later route\<close>

text \<open>
  A rejected promise or a thrown exception is a value of type \<open>exn\<close>; a call that can
  throw returns \<open>exn + 'a\<close>, with \<open>Inl\<close> for the exception.
\<close>

subsection \<open>searchWeb\<close>

text \<open>
  \<open>searchSerper\<close> is the search provider's client: the tool receives it as a
  parameter. Its answer carries the organic results, of which the tool keeps title, link
  and snippet. The abort signal is only handed through and is left out.
\<close>

record serper_query =
  sq_q :: string
  sq_num :: nat

record organic_result =
  org_title :: string
  org_link :: string
  org_snippet :: string
  org_position :: nat

record serper_response =
  organic :: "organic_result list"

record search_hit =
  hit_title :: string
  hit_link :: string
  hit_snippet :: string

definition searchWeb_execute ::
  "(serper_query \<Rightarrow> exn + serper_response) \<Rightarrow> string \<Rightarrow> exn + search_hit list" where
  "searchWeb_execute searchSerper query =
     (case searchSerper \<lparr>sq_q = query, sq_num = 10\<rparr> of
        Inl e \<Rightarrow> Inl e
      | Inr results \<Rightarrow>
          Inr (map (\<lambda>r. \<lparr>hit_title = org_title r, hit_link = org_link r,
                          hit_snippet = org_snippet r\<rparr>) (organic results)))"

subsection \<open>scrapePages\<close>

text \<open>
  The response of a single crawl is an untyped object (\<open>result: any\<close>) of which the
  tool reads three fields, each on its own: the flag \<open>success\<close>, the page content
  \<open>data\<close> and the error text \<open>error\<close>; \<open>None\<close> is a field that is not there.
  The scraper module is not among the sources; that a successful response carries
  \<open>data\<close> and a failed one carries \<open>error\<close> is its contract, stated where it is
  needed, and nothing here keeps a response from carrying a field it should not have.
  The bulk response has the per-URL items, an aggregate flag and, when unsuccessful, an
  error text.
\<close>

record crawl_response =
  r_success :: bool
  r_data :: "string option"
  r_error :: "string option"

record crawl_item =
  item_url :: string
  item_result :: crawl_response

record bulk_crawl_response =
  bulk_success :: bool
  bulk_results :: "crawl_item list"
  bulk_error :: "string option"

text \<open>An entry of the tool result; \<open>None\<close> is \<open>undefined\<close>.\<close>

record scrape_entry =
  entry_url :: string
  entry_success :: bool
  entry_content :: "string option"
  entry_error :: "string option"

definition formatCrawlResult :: "crawl_item \<Rightarrow> scrape_entry" where
  "formatCrawlResult r =
     \<lparr>entry_url = item_url r,
      entry_success = r_success (item_result r),
      entry_content = (if r_success (item_result r) then r_data (item_result r) else None),
      entry_error = (if r_success (item_result r) then None else r_error (item_result r))\<rparr>"

record scrape_output =
  out_success :: bool
  out_results :: "scrape_entry list"
  out_summary :: string
  out_error :: "string option"
  out_failedUrls :: "string list option"

text \<open>A number inside a template literal is printed in decimal.\<close>

definition digit_char :: "nat \<Rightarrow> char" where
  "digit_char n = ''0123456789'' ! n"

fun show_nat :: "nat \<Rightarrow> string" where
  "show_nat n = (if n < 10 then [digit_char n] else show_nat (n div 10) @ [digit_char (n mod 10)])"

declare show_nat.simps [simp del]

text \<open>
  What \<open>scrapePages.execute\<close> does with the (possibly cached) bulk response once it
  has arrived.
\<close>

definition scrapePages_respond :: "bulk_crawl_response \<Rightarrow> scrape_output" where
  "scrapePages_respond result =
     (if bulk_success result
      then \<lparr>out_success = True,
            out_results = map formatCrawlResult (bulk_results result),
            out_summary = ''Successfully scraped '' @ show_nat (length (bulk_results result))
                            @ '' pages'',
            out_error = None,
            out_failedUrls = None\<rparr>
      else
        (let successfulResults = filter (\<lambda>r. r_success (item_result r)) (bulk_results result);
             failedResults = filter (\<lambda>r. \<not> r_success (item_result r)) (bulk_results result)
         in \<lparr>out_success = False,
             out_results = map formatCrawlResult (bulk_results result),
             out_summary = ''Scraped '' @ show_nat (length successfulResults) @ ''/''
                             @ show_nat (length (bulk_results result)) @ '' pages successfully'',
             out_error = bulk_error result,
             out_failedUrls = Some (map item_url failedResults)\<rparr>))"

text \<open>
  The world outside the process, as far as scraping goes: the shared key-value cache and
  the list of bulk fetches made so far, each with its URL array.
\<close>

record world =
  redis :: "string \<times> string list \<Rightarrow> bulk_crawl_response option"
  fetches :: "string list list"

text \<open>
  Modelled from the spec: \<open>bulkCrawlWebsites\<close> of the scraper module is not among the
  sources. It is the external bulk page fetch: \<open>web n urls\<close> is what the fetch number
  \<open>n\<close> answers for \<open>urls\<close> (a response, or an exception), and every invocation is
  recorded in \<open>fetches\<close>.
\<close>

definition bulkCrawlWebsites ::
  "(nat \<Rightarrow> string list \<Rightarrow> exn + bulk_crawl_response) \<Rightarrow> string list \<Rightarrow> world
     \<Rightarrow> (exn + bulk_crawl_response) \<times> world" where
  "bulkCrawlWebsites web urls w = (web (length (fetches w)) urls, w\<lparr>fetches := fetches w @ [urls]\<rparr>)"

text \<open>
  Modelled from the spec: \<open>cacheWithRedis\<close> of the redis module is not among the
  sources. The spec says that a wrapped function reuses a previously computed result
  for the same input from a shared cache rather than computing it again, and that this
  system never invalidates an entry. So: a hit returns the stored result and calls
  nothing; a miss calls the function and stores what it returns, and stores nothing when
  it throws.
\<close>

definition cacheWithRedis ::
  "string \<Rightarrow> (string list \<Rightarrow> world \<Rightarrow> (exn + bulk_crawl_response) \<times> world)
     \<Rightarrow> string list \<Rightarrow> world \<Rightarrow> (exn + bulk_crawl_response) \<times> world" where
  "cacheWithRedis keyPrefix fn a w =
     (case redis w (keyPrefix, a) of
        Some v \<Rightarrow> (Inr v, w)
      | None \<Rightarrow>
          (case fn a w of
             (Inl e, w') \<Rightarrow> (Inl e, w')
           | (Inr v, w') \<Rightarrow> (Inr v, w'\<lparr>redis := (redis w')((keyPrefix, a) \<mapsto> v)\<rparr>)))"

definition cachedScrapePages ::
  "(nat \<Rightarrow> string list \<Rightarrow> exn + bulk_crawl_response) \<Rightarrow> string list \<Rightarrow> world
     \<Rightarrow> (exn + bulk_crawl_response) \<times> world" where
  "cachedScrapePages web = cacheWithRedis ''scrapePages'' (\<lambda>urls. bulkCrawlWebsites web urls)"

definition scrapePages_execute ::
  "(nat \<Rightarrow> string list \<Rightarrow> exn + bulk_crawl_response) \<Rightarrow> string list \<Rightarrow> world
     \<Rightarrow> (exn + scrape_output) \<times> world" where
  "scrapePages_execute web urls w =
     (case cachedScrapePages web urls w of
        (Inl e, w') \<Rightarrow> (Inl e, w')
      | (Inr result, w') \<Rightarrow> (Inr (scrapePages_respond result), w'))"

text \<open>A run of scrapePages tool calls, one after the other, whatever they return.\<close>

fun scrape_calls ::
  "(nat \<Rightarrow> string list \<Rightarrow> exn + bulk_crawl_response) \<Rightarrow> string list list \<Rightarrow> world \<Rightarrow> world" where
  "scrape_calls web [] w = w"
| "scrape_calls web (urls # rest) w = scrape_calls web rest (snd (scrapePages_execute web urls w))"

section \<open>The POST handlers\<close>

text \<open>
  The repository holds two versions of the chat route: the day-1 \<open>route.ts\<close> and a
  later one with the scrape tool, tracing and the checks on the request. Both are
  functions of the session, the request body and the database; what lies outside the
  repository is a parameter, collected in \<open>env\<close>:
  \<^item> \<open>nanoid k\<close> is the result of the \<open>k\<close>-th call of \<open>nanoid()\<close>, \<open>randomUUID\<close>
    that of \<open>crypto.randomUUID()\<close>;
  \<^item> \<open>start_time\<close> and \<open>finish_time\<close> are the clock readings of \<open>new Date()\<close>
    before streaming and in \<open>onFinish\<close>;
  \<^item> \<open>streamText\<close> is the model turn with its tool loop: it either completes, with
    the streamed content and the response messages, or fails part-way;
  \<^item> \<open>appendResponseMessages\<close> is the SDK's merge of the incoming messages with the
    response messages;
  \<^item> \<open>queries_upsertChat\<close> is the \<open>upsertChat\<close> of the later route's queries module,
    which is not among the sources.
\<close>

record session =
  session_user_id :: ident

record body =
  body_messages :: "ui_message list"
  body_chatId :: "string option"

record response_message =
  rm_id :: ident
  rm_role :: string
  rm_parts :: "part list"

datatype turn =
    Completed "string list" "response_message list"
  | Failed "string list"

datatype stream_event = NEW_CHAT_CREATED ident

datatype stream_part =
    Data stream_event
  | ModelContent string
  | ErrorText string

datatype response =
    Response nat string
  | DataStreamResponse "stream_part list"

record upsert_opts =
  opt_userId :: ident
  opt_chatId :: ident
  opt_title :: string
  opt_messages :: "ui_message list"

text \<open>
  The calls a handler makes to its collaborators, in program order; \<open>Threw\<close> records
  an exception that left a callback of the handler.
\<close>

datatype effect =
    UpsertChat chat
  | QueriesUpsertChat upsert_opts
  | FindFirst ident
  | LangfuseTrace ident ident
  | WriteData stream_event
  | StreamText "ui_message list"
  | MergeIntoDataStream
  | DeleteMessages ident
  | InsertMessages "message_row list"
  | LangfuseFlush
  | Threw exn

fun is_db_write :: "effect \<Rightarrow> bool" where
  "is_db_write (UpsertChat c) = True"
| "is_db_write (QueriesUpsertChat opts) = True"
| "is_db_write (DeleteMessages cid) = True"
| "is_db_write (InsertMessages rows) = True"
| "is_db_write e = False"

fun is_model_call :: "effect \<Rightarrow> bool" where
  "is_model_call (StreamText ms) = True"
| "is_model_call e = False"

fun is_streaming :: "effect \<Rightarrow> bool" where
  "is_streaming (WriteData ev) = True"
| "is_streaming (MergeIntoDataStream) = True"
| "is_streaming e = False"

record env =
  nanoid :: "nat \<Rightarrow> ident"
  randomUUID :: ident
  start_time :: timestamp
  finish_time :: timestamp
  streamText :: "ui_message list \<Rightarrow> turn"
  appendResponseMessages :: "ui_message list \<Rightarrow> response_message list \<Rightarrow> ui_message list"
  queries_upsertChat :: "upsert_opts \<Rightarrow> db \<Rightarrow> db"

record outcome =
  response :: response
  final_db :: db
  log :: "effect list"

text \<open>\<open>!chatId\<close>: a missing chat id and the empty string are both falsy.\<close>

definition falsy :: "string option \<Rightarrow> bool" where
  "falsy c = (case c of None \<Rightarrow> True | Some s \<Rightarrow> s = [])"

subsection \<open>route.ts (day 1)\<close>

text \<open>\<open>incomingMessages[0]?.content?.slice(0, 40) || "New Chat"\<close>\<close>

definition title_route :: "ui_message list \<Rightarrow> string" where
  "title_route incomingMessages =
     (case incomingMessages of
        [] \<Rightarrow> ''New Chat''
      | m # rest \<Rightarrow> (if take 40 (m_content m) = [] then ''New Chat'' else take 40 (m_content m)))"

text \<open>
  The \<open>execute\<close> callback of the data stream. \<open>k\<close> counts the calls of \<open>nanoid\<close> made
  so far, \<open>lg\<close> is the log so far. When the turn fails, \<open>onError\<close> turns the error into
  a text and \<open>onFinish\<close> does not run. When the turn completes, the content has been
  streamed by the time \<open>onFinish\<close> runs; an exception of \<open>onFinish\<close> is recorded in
  the log, and what the SDK then does with the response is not in the sources.
\<close>

definition execute_route ::
  "env \<Rightarrow> ui_message list \<Rightarrow> bool \<Rightarrow> ident \<Rightarrow> nat \<Rightarrow> db \<Rightarrow> effect list \<Rightarrow> outcome" where
  "execute_route ev incomingMessages isNewChat cid k d lg =
     (let announce = (if isNewChat \<and> cid \<noteq> [] then [NEW_CHAT_CREATED cid] else []);
          lg1 = lg @ map WriteData announce @ [StreamText incomingMessages, MergeIntoDataStream]
      in case streamText ev incomingMessages of
           Completed chunks responseMessages \<Rightarrow>
             (let updatedMessages = appendResponseMessages ev incomingMessages responseMessages;
                  replaced = replace_messages (nanoid ev) k (finish_time ev) cid updatedMessages d
              in \<lparr>response = DataStreamResponse (map Data announce @ map ModelContent chunks),
                  final_db = snd replaced,
                  log = lg1 @ [DeleteMessages cid,
                               InsertMessages
                                 (message_rows (nanoid ev) k cid (finish_time ev) 0 updatedMessages)]
                            @ (case fst replaced of None \<Rightarrow> [] | Some e \<Rightarrow> [Threw e])\<rparr>)
         | Failed chunks \<Rightarrow>
             \<lparr>response = DataStreamResponse (map Data announce @ map ModelContent chunks
                                               @ [ErrorText ''Oops, an error occured!'']),
              final_db = d,
              log = lg1\<rparr>)"

definition new_chat_route :: "env \<Rightarrow> session \<Rightarrow> ui_message list \<Rightarrow> db \<Rightarrow> outcome" where
  "new_chat_route ev s incomingMessages d =
     (let cid = nanoid ev 0;
          row = \<lparr>chat_id = cid, chat_userId = session_user_id s,
                 chat_title = title_route incomingMessages, chat_createdAt = start_time ev\<rparr>
      in execute_route ev incomingMessages True cid 1 (snd (upsertChat row d)) [UpsertChat row])"

definition POST_route :: "env \<Rightarrow> session option \<Rightarrow> body \<Rightarrow> db \<Rightarrow> outcome" where
  "POST_route ev sess b d =
     (case sess of
        None \<Rightarrow> \<lparr>response = Response 401 ''Unauthorized'', final_db = d, log = []\<rparr>
      | Some s \<Rightarrow>
          (case body_chatId b of
             None \<Rightarrow> new_chat_route ev s (body_messages b) d
           | Some c \<Rightarrow>
               if c = [] then new_chat_route ev s (body_messages b) d
               else execute_route ev (body_messages b) False c 0 d []))"

subsection \<open>The later route\<close>

text \<open>\<open>messages[messages.length - 1]!.content.slice(0, 50) + "..."\<close>, for a non-empty list.\<close>

definition title_later :: "ui_message list \<Rightarrow> string" where
  "title_later msgs = take 50 (m_content (last msgs)) @ ''...''"

definition execute_later ::
  "env \<Rightarrow> session \<Rightarrow> ui_message list \<Rightarrow> string option \<Rightarrow> ident \<Rightarrow> db \<Rightarrow> effect list \<Rightarrow> outcome"
where
  "execute_later ev s msgs chatId currentChatId d lg =
     (let announce = (if falsy chatId then [NEW_CHAT_CREATED currentChatId] else []);
          lg1 = lg @ map WriteData announce @ [StreamText msgs, MergeIntoDataStream]
      in case streamText ev msgs of
           Completed chunks responseMessages \<Rightarrow>
             (let updatedMessages = appendResponseMessages ev msgs responseMessages
              in if msgs = []
                 then \<lparr>response = DataStreamResponse (map Data announce @ map ModelContent chunks),
                       final_db = d,
                       log = lg1\<rparr>
                 else
                   (let opts = \<lparr>opt_userId = session_user_id s, opt_chatId = currentChatId,
                                 opt_title = title_later msgs, opt_messages = updatedMessages\<rparr>
                    in \<lparr>response = DataStreamResponse (map Data announce @ map ModelContent chunks),
                        final_db = queries_upsertChat ev opts d,
                        log = lg1 @ [QueriesUpsertChat opts, LangfuseFlush]\<rparr>))
         | Failed chunks \<Rightarrow>
             \<lparr>response = DataStreamResponse (map Data announce @ map ModelContent chunks
                                               @ [ErrorText ''Oops, an error occurred!'']),
              final_db = d,
              log = lg1\<rparr>)"

definition new_chat_later :: "env \<Rightarrow> session \<Rightarrow> ui_message list \<Rightarrow> string option \<Rightarrow> db \<Rightarrow> outcome"
where
  "new_chat_later ev s msgs chatId d =
     (let newChatId = randomUUID ev;
          opts = \<lparr>opt_userId = session_user_id s, opt_chatId = newChatId,
                  opt_title = title_later msgs, opt_messages = msgs\<rparr>
      in execute_later ev s msgs chatId newChatId (queries_upsertChat ev opts d)
           [QueriesUpsertChat opts, LangfuseTrace newChatId (session_user_id s)])"

definition POST_later :: "env \<Rightarrow> session option \<Rightarrow> body \<Rightarrow> db \<Rightarrow> outcome" where
  "POST_later ev sess b d =
     (case sess of
        None \<Rightarrow> \<lparr>response = Response 401 ''Unauthorized'', final_db = d, log = []\<rparr>
      | Some s \<Rightarrow>
          if body_messages b = []
          then \<lparr>response = Response 400 ''No messages provided'', final_db = d, log = []\<rparr>
          else
            (case body_chatId b of
               None \<Rightarrow> new_chat_later ev s (body_messages b) (body_chatId b) d
             | Some c \<Rightarrow>
                 if c = [] then new_chat_later ev s (body_messages b) (body_chatId b) d
                 else
                   (case find (\<lambda>r. chat_id r = c) (chats d) of
                      None \<Rightarrow>
                        \<lparr>response = Response 404 ''Chat not found or unauthorized'',
                         final_db = d, log = [FindFirst c]\<rparr>
                    | Some r \<Rightarrow>
                        if chat_userId r \<noteq> session_user_id s
                        then \<lparr>response = Response 404 ''Chat not found or unauthorized'',
                              final_db = d, log = [FindFirst c]\<rparr>
                        else execute_later ev s (body_messages b) (body_chatId b) c d
                               [FindFirst c, LangfuseTrace c (session_user_id s)])))"

section \<open>Sample data\<close>

text \<open>Concrete values on which the results below are instantiated.\<close>

definition alice :: session where
  "alice = \<lparr>session_user_id = ''alice''\<rparr>"

definition bobs_chat :: chat where
  "bobs_chat = \<lparr>chat_id = ''c-bob'', chat_userId = ''bob'', chat_title = ''Bob'', chat_createdAt = 1\<rparr>"

definition alices_chat :: chat where
  "alices_chat = \<lparr>chat_id = ''c-alice'', chat_userId = ''alice'', chat_title = ''Alice'',
                  chat_createdAt = 2\<rparr>"

definition old_row :: "ident \<Rightarrow> message_row" where
  "old_row cid = \<lparr>msg_id = ''old'', msg_chatId = cid, msg_role = ''user'',
                  msg_parts = Some [TextPart ''old''], msg_order = 0, msg_createdAt = 1\<rparr>"

definition sample_db :: db where
  "sample_db = \<lparr>chats = [bobs_chat, alices_chat],
                messages = [old_row ''c-bob'', old_row ''c-alice'']\<rparr>"

definition user_msg :: "ident \<Rightarrow> string \<Rightarrow> ui_message" where
  "user_msg i txt =
     \<lparr>m_id = i, m_role = ''user'', m_content = txt, m_parts = Some [TextPart txt]\<rparr>"

definition assistant_msg :: "ident \<Rightarrow> string \<Rightarrow> ui_message" where
  "assistant_msg i txt =
     \<lparr>m_id = i, m_role = ''assistant'', m_content = txt, m_parts = Some [TextPart txt]\<rparr>"

definition partless_msg :: "ident \<Rightarrow> string \<Rightarrow> ui_message" where
  "partless_msg i txt = \<lparr>m_id = i, m_role = ''user'', m_content = txt, m_parts = None\<rparr>"

definition sample_merge :: "ui_message list \<Rightarrow> response_message list \<Rightarrow> ui_message list" where
  "sample_merge ms rs =
     ms @ map (\<lambda>r. \<lparr>m_id = rm_id r, m_role = rm_role r, m_content = [],
                     m_parts = Some (rm_parts r)\<rparr>) rs"

definition sample_upsert :: "upsert_opts \<Rightarrow> db \<Rightarrow> db" where
  "sample_upsert opts d =
     snd (replace_messages (\<lambda>k. ''u'') 0 9 (opt_chatId opts) (opt_messages opts)
       (snd (upsertChat \<lparr>chat_id = opt_chatId opts, chat_userId = opt_userId opts,
                         chat_title = opt_title opts, chat_createdAt = 9\<rparr> d)))"

definition sample_env :: env where
  "sample_env =
     \<lparr>nanoid = (\<lambda>k. if k = 0 then ''n0'' else ''n1''),
      randomUUID = ''uuid'',
      start_time = 5,
      finish_time = 6,
      streamText = (\<lambda>ms. Completed [''Hi'']
                      [\<lparr>rm_id = [], rm_role = ''assistant'', rm_parts = [TextPart ''Hi'']\<rparr>]),
      appendResponseMessages = sample_merge,
      queries_upsertChat = sample_upsert\<rparr>"

definition sample_bulk :: bulk_crawl_response where
  "sample_bulk =
     \<lparr>bulk_success = False,
      bulk_results =
        [\<lparr>item_url = ''https://a'',
          item_result = \<lparr>r_success = True, r_data = Some ''page a'', r_error = None\<rparr>\<rparr>,
         \<lparr>item_url = ''https://b'',
          item_result = \<lparr>r_success = False, r_data = None, r_error = Some ''timeout''\<rparr>\<rparr>],
      bulk_error = Some ''Failed to crawl some websites''\<rparr>"

definition sample_bulk_ok :: bulk_crawl_response where
  "sample_bulk_ok =
     \<lparr>bulk_success = True,
      bulk_results =
        [\<lparr>item_url = ''https://a'',
          item_result = \<lparr>r_success = True, r_data = Some ''page a'', r_error = None\<rparr>\<rparr>],
      bulk_error = None\<rparr>"

text \<open>
  Responses with a field too many: a successful one that also has an error text, a
  failed one that also has content.
\<close>

definition sample_bulk_stray :: bulk_crawl_response where
  "sample_bulk_stray =
     \<lparr>bulk_success = False,
      bulk_results =
        [\<lparr>item_url = ''https://a'',
          item_result = \<lparr>r_success = True, r_data = Some ''page a'', r_error = Some ''stale''\<rparr>\<rparr>,
         \<lparr>item_url = ''https://b'',
          item_result = \<lparr>r_success = False, r_data = Some ''partial'',
                         r_error = Some ''timeout''\<rparr>\<rparr>],
      bulk_error = Some ''Failed to crawl some websites''\<rparr>"

definition sample_world :: world where
  "sample_world = \<lparr>redis = Map.empty, fetches = []\<rparr>"

definition sample_web :: "nat \<Rightarrow> string list \<Rightarrow> exn + bulk_crawl_response" where
  "sample_web n urls = (if n = 0 then Inr sample_bulk else Inr sample_bulk_ok)"

definition sample_world1 :: world where
  "sample_world1 =
     \<lparr>redis = [(''scrapePages'', [''https://a'', ''https://b'']) \<mapsto> sample_bulk],
      fetches = [[''https://a'', ''https://b'']]\<rparr>"

definition sample_world2 :: world where
  "sample_world2 =
     \<lparr>redis = [(''scrapePages'', [''https://a'', ''https://b'']) \<mapsto> sample_bulk,
               (''scrapePages'', [''https://a'']) \<mapsto> sample_bulk_ok],
      fetches = [[''https://a'', ''https://b''], [''https://a'']]\<rparr>"

section \<open>Properties of the helpers\<close>

lemma message_rows_length: "length (message_rows gen k cid t i ms) = length ms"
  by (induction ms arbitrary: k i) simp_all

lemma message_rows_order: "map msg_order (message_rows gen k cid t i ms) = [i ..< i + length ms]"
proof (induction ms arbitrary: k i)
  case Nil
  show ?case by simp
next
  case (Cons m ms)
  have "[i ..< i + length (m # ms)] = i # [Suc i ..< i + length (m # ms)]"
    by (rule upt_conv_Cons) simp
  moreover have "i + length (m # ms) = Suc i + length ms"
    by simp
  ultimately have "[i ..< i + length (m # ms)] = i # [Suc i ..< Suc i + length ms]"
    by simp
  with Cons.IH show ?case by simp
qed

lemma message_rows_chatId: "r \<in> set (message_rows gen k cid t i ms) \<Longrightarrow> msg_chatId r = cid"
  by (induction ms arbitrary: k i) (auto split: if_splits)

lemma message_rows_role: "map msg_role (message_rows gen k cid t i ms) = map m_role ms"
  by (induction ms arbitrary: k i) simp_all

lemma message_rows_parts: "map msg_parts (message_rows gen k cid t i ms) = map m_parts ms"
  by (induction ms arbitrary: k i) simp_all

lemma message_rows_accepted:
  "list_all (\<lambda>r. msg_parts r \<noteq> None) (message_rows gen k cid t i ms)
     \<longleftrightarrow> list_all (\<lambda>m. m_parts m \<noteq> None) ms"
  by (induction ms arbitrary: k i) simp_all

lemma replace_messages_chats: "chats (snd (replace_messages gen k t cid ms d)) = chats d"
  by (simp add: replace_messages_def insert_messages_def delete_messages_def Let_def)

lemma filter_chat_deleted:
  "filter (\<lambda>m. msg_chatId m = cid) (filter (\<lambda>m. msg_chatId m \<noteq> cid) xs) = []"
  by (induction xs) simp_all

lemma replace_messages_accepted:
  assumes "list_all (\<lambda>m. m_parts m \<noteq> None) ms"
  shows "replace_messages gen k t cid ms d
           = (None, (delete_messages cid d)
                      \<lparr>messages := messages (delete_messages cid d) @ message_rows gen k cid t 0 ms\<rparr>)"
proof -
  have "list_all (\<lambda>r. msg_parts r \<noteq> None) (message_rows gen k cid t 0 ms)"
    unfolding message_rows_accepted by (rule assms)
  then have "insert_messages (message_rows gen k cid t 0 ms) (delete_messages cid d)
               = Inr ((delete_messages cid d)
                      \<lparr>messages := messages (delete_messages cid d) @ message_rows gen k cid t 0 ms\<rparr>)"
    by (simp only: insert_messages_def if_True)
  then show ?thesis
    by (simp add: replace_messages_def Let_def)
qed

lemma replace_messages_rejected:
  assumes "\<not> list_all (\<lambda>m. m_parts m \<noteq> None) ms"
  shows "\<exists>e. replace_messages gen k t cid ms d = (Some e, delete_messages cid d)"
proof -
  have "\<not> list_all (\<lambda>r. msg_parts r \<noteq> None) (message_rows gen k cid t 0 ms)"
    unfolding message_rows_accepted by (rule assms)
  then have "\<exists>e. insert_messages (message_rows gen k cid t 0 ms) (delete_messages cid d) = Inl e"
    by (simp only: insert_messages_def if_False) blast
  then show ?thesis
    by (auto simp: replace_messages_def Let_def)
qed

lemma replace_messages_of_chat:
  assumes "list_all (\<lambda>m. m_parts m \<noteq> None) ms"
  shows "filter (\<lambda>m. msg_chatId m = cid) (messages (snd (replace_messages gen k t cid ms d)))
           = message_rows gen k cid t 0 ms"
proof -
  have b: "filter (\<lambda>m. msg_chatId m = cid) (message_rows gen k cid t 0 ms)
             = message_rows gen k cid t 0 ms"
    by (rule filter_True) (simp add: message_rows_chatId)
  show ?thesis
    by (simp add: replace_messages_accepted [OF assms] delete_messages_def filter_chat_deleted b)
qed

lemma replace_messages_of_chat_rejected:
  assumes "\<not> list_all (\<lambda>m. m_parts m \<noteq> None) ms"
  shows "filter (\<lambda>m. msg_chatId m = cid) (messages (snd (replace_messages gen k t cid ms d))) = []"
  using replace_messages_rejected [OF assms, of gen k t cid d]
  by (auto simp: delete_messages_def filter_chat_deleted)

lemma filter_distinct_key:
  "distinct (map f xs) \<Longrightarrow> k \<in> set xs \<Longrightarrow> filter (\<lambda>x. f k = f x) xs = [k]"
proof (induction xs)
  case Nil
  then show ?case by simp
next
  case (Cons x xs)
  show ?case
  proof (cases "k = x")
    case True
    have "filter (\<lambda>y. f x = f y) xs = []"
      using Cons.prems(1) by (auto simp: filter_empty_conv)
    with True show ?thesis by simp
  next
    case False
    then have "k \<in> set xs" using Cons.prems(2) by simp
    moreover have "f x \<notin> f ` set xs"
      using Cons.prems(1) by simp
    ultimately have "f k \<noteq> f x"
      by (metis imageI)
    with \<open>k \<in> set xs\<close> show ?thesis
      using Cons by simp
  qed
qed

lemma sort_key_permutation:
  fixes f :: "'a \<Rightarrow> nat"
  assumes perm: "mset xs = mset ys"
    and sorted: "sorted (map f ys)"
    and dist: "distinct (map f ys)"
  shows "sort_key f xs = ys"
proof (rule properties_for_sort_key)
  show "mset ys = mset xs" using perm by simp
  show "sorted (map f ys)" by (rule sorted)
  fix k assume k: "k \<in> set ys"
  have "mset (map f xs) = mset (map f ys)"
    using perm by (metis mset_map)
  then have dx: "distinct (map f xs)"
    using dist by (metis mset_eq_imp_distinct_iff)
  have kx: "k \<in> set xs"
    using k perm by (metis mset_eq_setD)
  show "filter (\<lambda>x. f k = f x) ys = filter (\<lambda>x. f k = f x) xs"
    by (simp add: filter_distinct_key [OF dist k] filter_distinct_key [OF dx kx])
qed

text \<open>
  When every message of the new list has parts, replacing the messages of a chat and
  reading the chat back through \<open>getChat\<close> gives exactly the rows made from the new
  list, in its order, whatever the physical order of the message table: the read-back
  state \<open>d'\<close> is any state with the same chats and the same message rows.
\<close>

lemma getChat_replace_messages:
  assumes own: "find (\<lambda>c. chat_id c = cid \<and> chat_userId c = uid) (chats d) = Some c"
    and parts: "list_all (\<lambda>m. m_parts m \<noteq> None) merged"
    and same_chats: "chats d' = chats (snd (replace_messages gen k t cid merged d))"
    and same_rows: "mset (messages d') = mset (messages (snd (replace_messages gen k t cid merged d)))"
  shows "\<exists>rows. getChat cid uid d' = Some (c, rows)
           \<and> rows = message_rows gen k cid t 0 merged
           \<and> length rows = length merged
           \<and> map msg_order rows = [0 ..< length merged]
           \<and> map msg_role rows = map m_role merged
           \<and> map msg_parts rows = map m_parts merged"
proof -
  let ?rows = "message_rows gen k cid t 0 merged"
  have ord: "map msg_order ?rows = [0 ..< length merged]"
    using message_rows_order [of gen k cid t 0 merged] by simp
  have "mset (filter (\<lambda>m. msg_chatId m = cid) (messages d'))
          = mset (filter (\<lambda>m. msg_chatId m = cid)
                    (messages (snd (replace_messages gen k t cid merged d))))"
    using same_rows by (simp only: mset_filter)
  then have "mset (filter (\<lambda>m. msg_chatId m = cid) (messages d')) = mset ?rows"
    by (simp only: replace_messages_of_chat [OF parts])
  then have "sort_key msg_order (filter (\<lambda>m. msg_chatId m = cid) (messages d')) = ?rows"
    by (rule sort_key_permutation) (simp_all add: ord)
  then have "getChat cid uid d' = Some (c, ?rows)"
    using own same_chats by (simp add: getChat_def replace_messages_chats)
  then show ?thesis
    using ord by (simp add: message_rows_length message_rows_role message_rows_parts)
qed

text \<open>
  C10. \<open>upsertChat\<close> on the id of an existing chat changes the title of that chat and
  nothing else: every row keeps its id, owner and creation time, rows with another id are
  untouched, no row is added, and the message table is the same.
\<close>

theorem C10_upsertChat_existing:
  assumes "list_ex (\<lambda>r. chat_id r = chat_id c) (chats d)"
  shows "chats (snd (upsertChat c d))
           = map (\<lambda>r. if chat_id r = chat_id c then r\<lparr>chat_title := chat_title c\<rparr> else r) (chats d)
         \<and> map chat_id (chats (snd (upsertChat c d))) = map chat_id (chats d)
         \<and> map chat_userId (chats (snd (upsertChat c d))) = map chat_userId (chats d)
         \<and> map chat_createdAt (chats (snd (upsertChat c d))) = map chat_createdAt (chats d)
         \<and> messages (snd (upsertChat c d)) = messages d"
proof -
  have eq: "chats (snd (upsertChat c d))
      = map (\<lambda>r. if chat_id r = chat_id c then r\<lparr>chat_title := chat_title c\<rparr> else r) (chats d)"
    using assms by (simp add: upsertChat_def Let_def)
  have "messages (snd (upsertChat c d)) = messages d"
    by (simp add: upsertChat_def Let_def)
  moreover have "map chat_id (map (\<lambda>r. if chat_id r = chat_id c then r\<lparr>chat_title := chat_title c\<rparr> else r) (chats d)) = map chat_id (chats d)"
    by (induction "chats d") auto
  moreover have "map chat_userId (map (\<lambda>r. if chat_id r = chat_id c then r\<lparr>chat_title := chat_title c\<rparr> else r) (chats d)) = map chat_userId (chats d)"
    by (induction "chats d") auto
  moreover have "map chat_createdAt (map (\<lambda>r. if chat_id r = chat_id c then r\<lparr>chat_title := chat_title c\<rparr> else r) (chats d)) = map chat_createdAt (chats d)"
    by (induction "chats d") auto
  ultimately show ?thesis
    using eq by simp
qed

theorem C10_upsertChat_existing_witness:
  "list_ex (\<lambda>r. chat_id r = chat_id (bobs_chat\<lparr>chat_userId := ''mallory'', chat_title := ''New title'', chat_createdAt := 77\<rparr>)) (chats sample_db)
   \<and> chats (snd (upsertChat (bobs_chat\<lparr>chat_userId := ''mallory'', chat_title := ''New title'', chat_createdAt := 77\<rparr>) sample_db))
       = [bobs_chat\<lparr>chat_title := ''New title''\<rparr>, alices_chat]
   \<and> messages (snd (upsertChat (bobs_chat\<lparr>chat_userId := ''mallory'', chat_title := ''New title'', chat_createdAt := 77\<rparr>) sample_db))
       = messages sample_db"
proof -
  let ?c = "bobs_chat\<lparr>chat_userId := ''mallory'', chat_title := ''New title'', chat_createdAt := 77\<rparr>"
  have h: "list_ex (\<lambda>r. chat_id r = chat_id ?c) (chats sample_db)"
    by (simp add: sample_db_def alices_chat_def bobs_chat_def)
  show ?thesis
    using h C10_upsertChat_existing [OF h]
    by (simp add: sample_db_def alices_chat_def bobs_chat_def)
qed

section \<open>Properties of the scrape tool\<close>

lemma formatCrawlResult_fields:
  "entry_url (formatCrawlResult x) = item_url x"
  "entry_success (formatCrawlResult x) = r_success (item_result x)"
  by (simp_all add: formatCrawlResult_def)

lemma scrapePages_respond_results:
  "out_results (scrapePages_respond r) = map formatCrawlResult (bulk_results r)"
  by (simp add: scrapePages_respond_def Let_def)

lemma scrapePages_execute_Inr:
  "cachedScrapePages web urls w = (Inr r, w') \<Longrightarrow>
     scrapePages_execute web urls w = (Inr (scrapePages_respond r), w')"
  by (simp add: scrapePages_execute_def)

lemma scrapePages_execute_Inl:
  "cachedScrapePages web urls w = (Inl e, w') \<Longrightarrow> scrapePages_execute web urls w = (Inl e, w')"
  by (simp add: scrapePages_execute_def)

lemma length_filter_pos:
  "\<exists>x\<in>set xs. P x \<Longrightarrow> 0 < length (filter P xs)"
  by (simp add: filter_empty_conv)

lemma length_filter_lt:
  "\<exists>x\<in>set xs. \<not> P x \<Longrightarrow> length (filter P xs) < length xs"
  by (blast intro: length_filter_less)

text \<open>
  C3. When the bulk crawl behind a scrapePages call reports an unsuccessful aggregate
  with one item per input URL, at least one of them failed and at least one succeeded,
  the tool result has \<open>success: false\<close>; \<open>failedUrls\<close> lists exactly the URLs
  whose crawl failed; \<open>results\<close> has one entry per input URL, in order, whose
  success flag is that URL's crawl outcome; and the summary reads
  \<open>Scraped k/N pages successfully\<close> with \<open>0 < k < N\<close>, which differs from the
  summary \<open>Successfully scraped N pages\<close> of a fully successful crawl.
\<close>

theorem C3_partial_scrape:
  assumes call: "cachedScrapePages web urls w = (Inr r, w')"
    and unsuccessful: "\<not> bulk_success r"
    and per_url: "map item_url (bulk_results r) = urls"
    and some_ok: "\<exists>x\<in>set (bulk_results r). r_success (item_result x)"
    and some_failed: "\<exists>x\<in>set (bulk_results r). \<not> r_success (item_result x)"
    and full: "bulk_success r2"
  shows "\<exists>out k. scrapePages_execute web urls w = (Inr out, w')
           \<and> out_success out = False
           \<and> out_failedUrls out
               = Some (map item_url (filter (\<lambda>x. \<not> r_success (item_result x)) (bulk_results r)))
           \<and> map entry_url (out_results out) = urls
           \<and> map entry_success (out_results out)
               = map (\<lambda>x. r_success (item_result x)) (bulk_results r)
           \<and> k = length (filter (\<lambda>x. r_success (item_result x)) (bulk_results r))
           \<and> 0 < k \<and> k < length urls
           \<and> out_summary out
               = ''Scraped '' @ show_nat k @ ''/'' @ show_nat (length urls) @ '' pages successfully''
           \<and> out_summary (scrapePages_respond r2)
               = ''Successfully scraped '' @ show_nat (length (bulk_results r2)) @ '' pages''
           \<and> out_summary out \<noteq> out_summary (scrapePages_respond r2)"
proof -
  let ?out = "scrapePages_respond r"
  let ?k = "length (filter (\<lambda>x. r_success (item_result x)) (bulk_results r))"
  have len: "length (bulk_results r) = length urls"
    using per_url by (metis length_map)
  have ex: "scrapePages_execute web urls w = (Inr ?out, w')"
    using call by (rule scrapePages_execute_Inr)
  have s: "out_success ?out = False"
    using unsuccessful by (simp add: scrapePages_respond_def Let_def)
  have f: "out_failedUrls ?out
             = Some (map item_url (filter (\<lambda>x. \<not> r_success (item_result x)) (bulk_results r)))"
    using unsuccessful by (simp add: scrapePages_respond_def Let_def)
  have u: "map entry_url (out_results ?out) = urls"
    using per_url by (simp add: scrapePages_respond_results formatCrawlResult_fields comp_def)
  have e: "map entry_success (out_results ?out)
             = map (\<lambda>x. r_success (item_result x)) (bulk_results r)"
    by (simp add: scrapePages_respond_results formatCrawlResult_fields comp_def)
  have k0: "0 < ?k"
    using some_ok by (rule length_filter_pos)
  have k1: "?k < length urls"
    using length_filter_lt [OF some_failed] len by simp
  have m: "out_summary ?out
             = ''Scraped '' @ show_nat ?k @ ''/'' @ show_nat (length urls) @ '' pages successfully''"
    using unsuccessful len by (simp add: scrapePages_respond_def Let_def)
  have m2: "out_summary (scrapePages_respond r2)
              = ''Successfully scraped '' @ show_nat (length (bulk_results r2)) @ '' pages''"
    using full by (simp add: scrapePages_respond_def)
  have d: "out_summary ?out \<noteq> out_summary (scrapePages_respond r2)"
    unfolding m m2 by simp
  show ?thesis
    using ex s f u e k0 k1 m m2 d by blast
qed

lemma sample_call:
  "cachedScrapePages (\<lambda>n urls. Inr sample_bulk) [''https://a'', ''https://b''] sample_world
     = (Inr sample_bulk,
        \<lparr>redis = [(''scrapePages'', [''https://a'', ''https://b'']) \<mapsto> sample_bulk],
         fetches = [[''https://a'', ''https://b'']]\<rparr>)"
  by (simp add: cachedScrapePages_def cacheWithRedis_def bulkCrawlWebsites_def sample_world_def)

theorem C3_partial_scrape_witness:
  "scrapePages_execute (\<lambda>n urls. Inr sample_bulk) [''https://a'', ''https://b''] sample_world
     = (Inr \<lparr>out_success = False,
             out_results =
               [\<lparr>entry_url = ''https://a'', entry_success = True,
                 entry_content = Some ''page a'', entry_error = None\<rparr>,
                \<lparr>entry_url = ''https://b'', entry_success = False,
                 entry_content = None, entry_error = Some ''timeout''\<rparr>],
             out_summary = ''Scraped 1/2 pages successfully'',
             out_error = Some ''Failed to crawl some websites'',
             out_failedUrls = Some [''https://b'']\<rparr>,
        \<lparr>redis = [(''scrapePages'', [''https://a'', ''https://b'']) \<mapsto> sample_bulk],
         fetches = [[''https://a'', ''https://b'']]\<rparr>)
   \<and> out_summary (scrapePages_respond sample_bulk_ok) = ''Successfully scraped 1 pages''"
proof -
  have h1: "\<not> bulk_success sample_bulk"
    by (simp add: sample_bulk_def)
  have h2: "map item_url (bulk_results sample_bulk) = [''https://a'', ''https://b'']"
    by (simp add: sample_bulk_def)
  have h3: "\<exists>x\<in>set (bulk_results sample_bulk). r_success (item_result x)"
    by (simp add: sample_bulk_def)
  have h4: "\<exists>x\<in>set (bulk_results sample_bulk). \<not> r_success (item_result x)"
    by (simp add: sample_bulk_def)
  have h5: "bulk_success sample_bulk_ok"
    by (simp add: sample_bulk_ok_def)
  have n1: "show_nat (Suc 0) = ''1''" and n2: "show_nat (Suc (Suc 0)) = ''2''"
    by (simp_all add: show_nat.simps digit_char_def)
  from C3_partial_scrape [OF sample_call h1 h2 h3 h4 h5]
  obtain out k where
    "scrapePages_execute (\<lambda>n urls. Inr sample_bulk) [''https://a'', ''https://b''] sample_world
       = (Inr out, \<lparr>redis = [(''scrapePages'', [''https://a'', ''https://b'']) \<mapsto> sample_bulk],
                    fetches = [[''https://a'', ''https://b'']]\<rparr>)"
    and "out_summary (scrapePages_respond sample_bulk_ok)
           = ''Successfully scraped '' @ show_nat (length (bulk_results sample_bulk_ok)) @ '' pages''"
    by blast
  moreover have "scrapePages_execute (\<lambda>n urls. Inr sample_bulk) [''https://a'', ''https://b''] sample_world
     = (Inr (scrapePages_respond sample_bulk),
        \<lparr>redis = [(''scrapePages'', [''https://a'', ''https://b'']) \<mapsto> sample_bulk],
         fetches = [[''https://a'', ''https://b'']]\<rparr>)"
    using sample_call by (rule scrapePages_execute_Inr)
  moreover have "scrapePages_respond sample_bulk = \<lparr>out_success = False,
             out_results =
               [\<lparr>entry_url = ''https://a'', entry_success = True,
                 entry_content = Some ''page a'', entry_error = None\<rparr>,
                \<lparr>entry_url = ''https://b'', entry_success = False,
                 entry_content = None, entry_error = Some ''timeout''\<rparr>],
             out_summary = ''Scraped 1/2 pages successfully'',
             out_error = Some ''Failed to crawl some websites'',
             out_failedUrls = Some [''https://b'']\<rparr>"
    by (simp add: scrapePages_respond_def sample_bulk_def formatCrawlResult_def n1 n2)
  ultimately show ?thesis
    by (simp add: sample_bulk_ok_def n1)
qed

text \<open>
  C9. Entry by entry, the \<open>results\<close> of a scrapePages tool result follow the crawl
  items. Whatever fields a crawl response carries, an entry has content only if the
  crawl of that URL succeeded, an error only if it failed, and never both. When the
  responses keep the scraper's contract (a successful one carries \<open>data\<close>, a failed
  one carries \<open>error\<close>), the content is present exactly when the crawl succeeded and
  the error exactly when it failed.
\<close>

theorem C9_content_xor_error:
  "list_all2
     (\<lambda>e x. entry_url e = item_url x
           \<and> entry_success e = r_success (item_result x)
           \<and> (entry_content e \<noteq> None \<longrightarrow> r_success (item_result x))
           \<and> (entry_error e \<noteq> None \<longrightarrow> \<not> r_success (item_result x))
           \<and> \<not> (entry_content e \<noteq> None \<and> entry_error e \<noteq> None))
     (out_results (scrapePages_respond r)) (bulk_results r)
   \<and> ((\<forall>x\<in>set (bulk_results r).
          (r_success (item_result x) \<longrightarrow> r_data (item_result x) \<noteq> None)
        \<and> (\<not> r_success (item_result x) \<longrightarrow> r_error (item_result x) \<noteq> None))
      \<longrightarrow> list_all2
            (\<lambda>e x. (entry_content e \<noteq> None) = r_success (item_result x)
                  \<and> (entry_error e \<noteq> None) = (\<not> r_success (item_result x)))
            (out_results (scrapePages_respond r)) (bulk_results r))"
proof (intro conjI impI)
  have "list_all2
     (\<lambda>e x. entry_url e = item_url x
           \<and> entry_success e = r_success (item_result x)
           \<and> (entry_content e \<noteq> None \<longrightarrow> r_success (item_result x))
           \<and> (entry_error e \<noteq> None \<longrightarrow> \<not> r_success (item_result x))
           \<and> \<not> (entry_content e \<noteq> None \<and> entry_error e \<noteq> None))
     (map formatCrawlResult xs) xs" for xs
    by (induction xs) (simp_all add: formatCrawlResult_def)
  then show "list_all2
     (\<lambda>e x. entry_url e = item_url x
           \<and> entry_success e = r_success (item_result x)
           \<and> (entry_content e \<noteq> None \<longrightarrow> r_success (item_result x))
           \<and> (entry_error e \<noteq> None \<longrightarrow> \<not> r_success (item_result x))
           \<and> \<not> (entry_content e \<noteq> None \<and> entry_error e \<noteq> None))
     (out_results (scrapePages_respond r)) (bulk_results r)"
    by (simp add: scrapePages_respond_results)
next
  assume contract: "\<forall>x\<in>set (bulk_results r).
          (r_success (item_result x) \<longrightarrow> r_data (item_result x) \<noteq> None)
        \<and> (\<not> r_success (item_result x) \<longrightarrow> r_error (item_result x) \<noteq> None)"
  have "(\<forall>x\<in>set xs.
          (r_success (item_result x) \<longrightarrow> r_data (item_result x) \<noteq> None)
        \<and> (\<not> r_success (item_result x) \<longrightarrow> r_error (item_result x) \<noteq> None))
     \<Longrightarrow> list_all2
            (\<lambda>e x. (entry_content e \<noteq> None) = r_success (item_result x)
                  \<and> (entry_error e \<noteq> None) = (\<not> r_success (item_result x)))
            (map formatCrawlResult xs) xs" for xs
    by (induction xs) (auto simp: formatCrawlResult_def)
  from this [OF contract]
  show "list_all2
            (\<lambda>e x. (entry_content e \<noteq> None) = r_success (item_result x)
                  \<and> (entry_error e \<noteq> None) = (\<not> r_success (item_result x)))
            (out_results (scrapePages_respond r)) (bulk_results r)"
    by (simp add: scrapePages_respond_results)
qed

text \<open>
  On responses with a field too many, the entries keep only the field that matches the
  flag.
\<close>

theorem C9_content_xor_error_witness:
  "map (\<lambda>x. (r_success (item_result x), r_data (item_result x), r_error (item_result x)))
     (bulk_results sample_bulk_stray)
     = [(True, Some ''page a'', Some ''stale''), (False, Some ''partial'', Some ''timeout'')]
   \<and> out_results (scrapePages_respond sample_bulk_stray)
       = [\<lparr>entry_url = ''https://a'', entry_success = True,
           entry_content = Some ''page a'', entry_error = None\<rparr>,
          \<lparr>entry_url = ''https://b'', entry_success = False,
           entry_content = None, entry_error = Some ''timeout''\<rparr>]
   \<and> list_all2
         (\<lambda>e x. (entry_content e \<noteq> None) = r_success (item_result x)
               \<and> (entry_error e \<noteq> None) = (\<not> r_success (item_result x)))
         (out_results (scrapePages_respond sample_bulk_stray)) (bulk_results sample_bulk_stray)"
proof -
  have h: "\<forall>x\<in>set (bulk_results sample_bulk_stray).
      (r_success (item_result x) \<longrightarrow> r_data (item_result x) \<noteq> None)
    \<and> (\<not> r_success (item_result x) \<longrightarrow> r_error (item_result x) \<noteq> None)"
    by (simp add: sample_bulk_stray_def)
  have u: "map (\<lambda>x. (r_success (item_result x), r_data (item_result x), r_error (item_result x)))
     (bulk_results sample_bulk_stray)
     = [(True, Some ''page a'', Some ''stale''), (False, Some ''partial'', Some ''timeout'')]"
    by (simp add: sample_bulk_stray_def)
  have v: "out_results (scrapePages_respond sample_bulk_stray)
       = [\<lparr>entry_url = ''https://a'', entry_success = True,
           entry_content = Some ''page a'', entry_error = None\<rparr>,
          \<lparr>entry_url = ''https://b'', entry_success = False,
           entry_content = None, entry_error = Some ''timeout''\<rparr>]"
    by (simp add: scrapePages_respond_def sample_bulk_stray_def formatCrawlResult_def)
  have "list_all2
         (\<lambda>e x. (entry_content e \<noteq> None) = r_success (item_result x)
               \<and> (entry_error e \<noteq> None) = (\<not> r_success (item_result x)))
         (out_results (scrapePages_respond sample_bulk_stray)) (bulk_results sample_bulk_stray)"
    using C9_content_xor_error [of sample_bulk_stray] h by blast
  with u v show ?thesis by (intro conjI)
qed

subsection \<open>The cache in front of the bulk fetch\<close>

lemma cachedScrapePages_hit:
  "redis w (''scrapePages'', urls) = Some r \<Longrightarrow> cachedScrapePages web urls w = (Inr r, w)"
  by (simp add: cachedScrapePages_def cacheWithRedis_def)

lemma cachedScrapePages_miss_throws:
  "redis w (''scrapePages'', urls) = None \<Longrightarrow> web (length (fetches w)) urls = Inl e \<Longrightarrow>
     cachedScrapePages web urls w = (Inl e, w\<lparr>fetches := fetches w @ [urls]\<rparr>)"
  by (simp add: cachedScrapePages_def cacheWithRedis_def bulkCrawlWebsites_def)

lemma cachedScrapePages_stores:
  "cachedScrapePages web urls w = (Inr r, w1) \<Longrightarrow> redis w1 (''scrapePages'', urls) = Some r"
  by (auto simp: cachedScrapePages_def cacheWithRedis_def bulkCrawlWebsites_def
           split: option.splits sum.splits)

lemma cachedScrapePages_keeps:
  "redis w key = Some v \<Longrightarrow> redis (snd (cachedScrapePages web urls w)) key = Some v"
  by (auto simp: cachedScrapePages_def cacheWithRedis_def bulkCrawlWebsites_def
           split: option.splits sum.splits)

lemma scrapePages_execute_world:
  "snd (scrapePages_execute web urls w) = snd (cachedScrapePages web urls w)"
  by (simp add: scrapePages_execute_def split: prod.splits sum.splits)

lemma scrapePages_execute_cases:
  "scrapePages_execute web urls w = (Inr out, w1) \<Longrightarrow>
     \<exists>r. cachedScrapePages web urls w = (Inr r, w1) \<and> out = scrapePages_respond r"
  by (auto simp: scrapePages_execute_def split: prod.splits sum.splits)

lemma scrape_calls_keeps:
  "redis w key = Some v \<Longrightarrow> redis (scrape_calls web others w) key = Some v"
proof (induction others arbitrary: w)
  case Nil
  then show ?case by simp
next
  case (Cons urls rest)
  have "redis (snd (scrapePages_execute web urls w)) key = Some v"
    using Cons.prems by (simp add: scrapePages_execute_world cachedScrapePages_keeps)
  then show ?case
    using Cons.IH by simp
qed

text \<open>
  C8. Once a scrapePages call for a URL array has returned a result, a later call with
  the same array, after any number of other scrapePages calls in between, returns the
  same result, leaves the world as it is and so makes no further bulk fetch: it is
  answered from the cache.
\<close>

theorem C8_second_call_cached:
  assumes first: "scrapePages_execute web urls w = (Inr out, w1)"
    and later: "w2 = scrape_calls web others w1"
  shows "scrapePages_execute web urls w2 = (Inr out, w2)
         \<and> fetches (snd (scrapePages_execute web urls w2)) = fetches w2"
proof -
  obtain r where r: "cachedScrapePages web urls w = (Inr r, w1)" and out: "out = scrapePages_respond r"
    using scrapePages_execute_cases [OF first] by blast
  have "redis w1 (''scrapePages'', urls) = Some r"
    using r by (rule cachedScrapePages_stores)
  then have "redis w2 (''scrapePages'', urls) = Some r"
    unfolding later by (rule scrape_calls_keeps)
  then have "cachedScrapePages web urls w2 = (Inr r, w2)"
    by (rule cachedScrapePages_hit)
  then have "scrapePages_execute web urls w2 = (Inr out, w2)"
    unfolding out by (rule scrapePages_execute_Inr)
  then show ?thesis by simp
qed

text \<open>
  On the sample data: the first fetch answers with a partial failure, a fresh fetch would
  answer differently, and the repeated call still returns the first answer.
\<close>

theorem C8_second_call_cached_witness:
  "scrapePages_execute sample_web [''https://a'', ''https://b''] sample_world
     = (Inr (scrapePages_respond sample_bulk), sample_world1)
   \<and> sample_world2 = scrape_calls sample_web [[''https://a'']] sample_world1
   \<and> scrapePages_execute sample_web [''https://a'', ''https://b''] sample_world2
       = (Inr (scrapePages_respond sample_bulk), sample_world2)
   \<and> fetches (snd (scrapePages_execute sample_web [''https://a'', ''https://b''] sample_world2))
       = [[''https://a'', ''https://b''], [''https://a'']]"
proof -
  have h1: "scrapePages_execute sample_web [''https://a'', ''https://b''] sample_world
              = (Inr (scrapePages_respond sample_bulk), sample_world1)"
    by (simp add: scrapePages_execute_def cachedScrapePages_def cacheWithRedis_def
        bulkCrawlWebsites_def sample_world_def sample_world1_def sample_web_def)
  have h2: "sample_world2 = scrape_calls sample_web [[''https://a'']] sample_world1"
    by (simp add: scrapePages_execute_def cachedScrapePages_def cacheWithRedis_def
        bulkCrawlWebsites_def sample_world1_def sample_world2_def sample_web_def)
  have r: "scrapePages_execute sample_web [''https://a'', ''https://b''] sample_world2
             = (Inr (scrapePages_respond sample_bulk), sample_world2)"
    using C8_second_call_cached [OF h1 h2] by (rule conjunct1)
  have f: "fetches (snd (scrapePages_execute sample_web [''https://a'', ''https://b''] sample_world2))
             = [[''https://a'', ''https://b''], [''https://a'']]"
    unfolding r by (simp add: sample_world2_def)
  show ?thesis
    using h1 h2 r f by (intro conjI)
qed

subsection \<open>Failures inside a tool call\<close>

text \<open>
  C5 (amended). Neither tool catches an exception. When the search client throws,
  \<open>searchWeb.execute\<close> throws the same exception; when the bulk fetch throws on a
  cache miss, \<open>scrapePages.execute\<close> throws it. Only a crawl failure that the bulk
  fetch reports as an unsuccessful response is returned as data: \<open>success: false\<close>,
  the aggregate error, and for every failed URL an entry with its error text.
\<close>

theorem C5_tool_failures:
  "(searchSerper \<lparr>sq_q = query, sq_num = 10\<rparr> = Inl e
      \<longrightarrow> searchWeb_execute searchSerper query = Inl e)
   \<and> (redis w (''scrapePages'', urls) = None \<and> web (length (fetches w)) urls = Inl e
      \<longrightarrow> scrapePages_execute web urls w = (Inl e, w\<lparr>fetches := fetches w @ [urls]\<rparr>))
   \<and> (cachedScrapePages web urls w = (Inr r, w') \<and> \<not> bulk_success r
      \<longrightarrow> (\<exists>out. scrapePages_execute web urls w = (Inr out, w')
             \<and> out_success out = False
             \<and> out_error out = bulk_error r
             \<and> out_results out = map formatCrawlResult (bulk_results r)
             \<and> (\<forall>x\<in>set (bulk_results r). \<not> r_success (item_result x) \<longrightarrow>
                  \<lparr>entry_url = item_url x, entry_success = False, entry_content = None,
                   entry_error = r_error (item_result x)\<rparr> \<in> set (out_results out))))"
proof (intro conjI impI)
  assume "searchSerper \<lparr>sq_q = query, sq_num = 10\<rparr> = Inl e"
  then show "searchWeb_execute searchSerper query = Inl e"
    by (simp add: searchWeb_execute_def)
next
  assume "redis w (''scrapePages'', urls) = None \<and> web (length (fetches w)) urls = Inl e"
  then have "cachedScrapePages web urls w = (Inl e, w\<lparr>fetches := fetches w @ [urls]\<rparr>)"
    by (simp add: cachedScrapePages_miss_throws)
  then show "scrapePages_execute web urls w = (Inl e, w\<lparr>fetches := fetches w @ [urls]\<rparr>)"
    by (rule scrapePages_execute_Inl)
next
  assume a: "cachedScrapePages web urls w = (Inr r, w') \<and> \<not> bulk_success r"
  let ?out = "scrapePages_respond r"
  have 1: "scrapePages_execute web urls w = (Inr ?out, w')"
    using a by (simp add: scrapePages_execute_Inr)
  have 2: "out_success ?out = False" "out_error ?out = bulk_error r"
    using a by (simp_all add: scrapePages_respond_def Let_def)
  have 3: "out_results ?out = map formatCrawlResult (bulk_results r)"
    by (rule scrapePages_respond_results)
  have 4: "\<forall>x\<in>set (bulk_results r). \<not> r_success (item_result x) \<longrightarrow>
             \<lparr>entry_url = item_url x, entry_success = False, entry_content = None,
              entry_error = r_error (item_result x)\<rparr> \<in> set (out_results ?out)"
  proof (intro ballI impI)
    fix x assume "x \<in> set (bulk_results r)" and "\<not> r_success (item_result x)"
    then have "formatCrawlResult x \<in> set (out_results ?out)"
      and "formatCrawlResult x = \<lparr>entry_url = item_url x, entry_success = False,
             entry_content = None, entry_error = r_error (item_result x)\<rparr>"
      by (simp add: 3, simp add: formatCrawlResult_def)
    then show "\<lparr>entry_url = item_url x, entry_success = False, entry_content = None,
                 entry_error = r_error (item_result x)\<rparr> \<in> set (out_results ?out)"
      by simp
  qed
  show "\<exists>out. scrapePages_execute web urls w = (Inr out, w')
             \<and> out_success out = False
             \<and> out_error out = bulk_error r
             \<and> out_results out = map formatCrawlResult (bulk_results r)
             \<and> (\<forall>x\<in>set (bulk_results r). \<not> r_success (item_result x) \<longrightarrow>
                  \<lparr>entry_url = item_url x, entry_success = False, entry_content = None,
                   entry_error = r_error (item_result x)\<rparr> \<in> set (out_results out))"
    using 1 2 3 4 by blast
qed

text \<open>
  A search client that throws, and a bulk fetch that throws: the exception leaves
  \<open>execute\<close> in both tools.
\<close>

theorem C5_tool_failures_counterexample:
  "searchWeb_execute (\<lambda>q. Inl ''fetch failed'') ''isabelle'' = Inl ''fetch failed''
   \<and> fst (scrapePages_execute (\<lambda>n urls. Inl ''network down'') [''https://a''] sample_world)
       = Inl ''network down''"
  by (simp add: searchWeb_execute_def scrapePages_execute_def cachedScrapePages_def
      cacheWithRedis_def bulkCrawlWebsites_def sample_world_def)

text \<open>
  The three cases on the sample data.
\<close>

theorem C5_tool_failures_witness:
  "(\<lambda>q. Inl ''fetch failed'' :: exn + serper_response) \<lparr>sq_q = ''isabelle'', sq_num = 10\<rparr> = Inl ''fetch failed''
   \<and> searchWeb_execute (\<lambda>q. Inl ''fetch failed'') ''isabelle'' = Inl ''fetch failed''
   \<and> redis sample_world (''scrapePages'', [''https://a'']) = None
   \<and> scrapePages_execute (\<lambda>n urls. Inl ''fetch failed'') [''https://a''] sample_world
       = (Inl ''fetch failed'', \<lparr>redis = Map.empty, fetches = [[''https://a'']]\<rparr>)
   \<and> cachedScrapePages (\<lambda>n urls. Inr sample_bulk) [''https://a'', ''https://b''] sample_world
       = (Inr sample_bulk, sample_world1)
   \<and> \<not> bulk_success sample_bulk
   \<and> (\<exists>out. scrapePages_execute (\<lambda>n urls. Inr sample_bulk) [''https://a'', ''https://b''] sample_world
               = (Inr out, sample_world1)
            \<and> out_success out = False
            \<and> out_error out = Some ''Failed to crawl some websites''
            \<and> \<lparr>entry_url = ''https://b'', entry_success = False, entry_content = None,
                entry_error = Some ''timeout''\<rparr> \<in> set (out_results out))"
proof -
  have a: "cachedScrapePages (\<lambda>n urls. Inr sample_bulk) [''https://a'', ''https://b''] sample_world
             = (Inr sample_bulk, sample_world1)"
    by (simp add: cachedScrapePages_def cacheWithRedis_def bulkCrawlWebsites_def
        sample_world_def sample_world1_def)
  have b: "\<not> bulk_success sample_bulk"
    by (simp add: sample_bulk_def)
  have c: "redis sample_world (''scrapePages'', [''https://a'']) = None"
    by (simp add: sample_world_def)
  have 1: "searchWeb_execute (\<lambda>q. Inl ''fetch failed'') ''isabelle'' = Inl ''fetch failed''"
    using C5_tool_failures [of "\<lambda>q. Inl ''fetch failed''" "''isabelle''" "''fetch failed''"]
    by simp
  have 2: "scrapePages_execute (\<lambda>n urls. Inl ''fetch failed'') [''https://a''] sample_world
       = (Inl ''fetch failed'', \<lparr>redis = Map.empty, fetches = [[''https://a'']]\<rparr>)"
    using c C5_tool_failures [of "\<lambda>q. Inr \<lparr>organic = []\<rparr>" "''isabelle''" "''fetch failed''" sample_world
               "[''https://a'']" "\<lambda>n urls. Inl ''fetch failed''"]
    by (simp add: sample_world_def)
  have 3: "\<exists>out. scrapePages_execute (\<lambda>n urls. Inr sample_bulk) [''https://a'', ''https://b''] sample_world
               = (Inr out, sample_world1)
            \<and> out_success out = False
            \<and> out_error out = Some ''Failed to crawl some websites''
            \<and> \<lparr>entry_url = ''https://b'', entry_success = False, entry_content = None,
                entry_error = Some ''timeout''\<rparr> \<in> set (out_results out)"
    using a b C5_tool_failures [of "\<lambda>q. Inr \<lparr>organic = []\<rparr>" "''isabelle''" "''fetch failed''" sample_world
               "[''https://a'', ''https://b'']" "\<lambda>n urls. Inr sample_bulk" sample_bulk sample_world1]
    by (auto simp: sample_bulk_def)
  show ?thesis
    using a b c 1 2 3 by simp
qed

section \<open>Properties of the POST handlers\<close>

lemma POST_route_new:
  "falsy (body_chatId b) \<Longrightarrow> POST_route ev (Some s) b d = new_chat_route ev s (body_messages b) d"
  by (auto simp: POST_route_def falsy_def split: option.splits)

lemma POST_route_supplied:
  "body_chatId b = Some c \<Longrightarrow> c \<noteq> [] \<Longrightarrow>
     POST_route ev (Some s) b d = execute_route ev (body_messages b) False c 0 d []"
  by (simp add: POST_route_def)

lemma POST_later_new:
  "body_messages b \<noteq> [] \<Longrightarrow> falsy (body_chatId b) \<Longrightarrow>
     POST_later ev (Some s) b d = new_chat_later ev s (body_messages b) (body_chatId b) d"
  by (auto simp: POST_later_def falsy_def split: option.splits)

lemma not_falsy: "\<not> falsy c \<longleftrightarrow> (\<exists>x. c = Some x \<and> x \<noteq> [])"
  by (cases c) (simp_all add: falsy_def)

lemma execute_route_log:
  "\<exists>rest. log (execute_route ev ms isNew cid k d lg)
      = lg @ map WriteData (if isNew \<and> cid \<noteq> [] then [NEW_CHAT_CREATED cid] else [])
           @ [StreamText ms, MergeIntoDataStream] @ rest
    \<and> (\<forall>e. WriteData e \<notin> set rest)"
  by (cases "streamText ev ms") (simp_all add: execute_route_def Let_def split: option.splits)

lemma execute_route_response:
  "\<exists>content. response (execute_route ev ms isNew cid k d lg)
      = DataStreamResponse
          (map Data (if isNew \<and> cid \<noteq> [] then [NEW_CHAT_CREATED cid] else []) @ content)
    \<and> (\<forall>e. Data e \<notin> set content)"
  by (cases "streamText ev ms") (auto simp: execute_route_def Let_def)

lemma execute_route_chats: "chats (final_db (execute_route ev ms isNew cid k d lg)) = chats d"
  by (cases "streamText ev ms") (simp_all add: execute_route_def Let_def replace_messages_chats)

lemma execute_later_log:
  "\<exists>rest. log (execute_later ev s ms chatId cid d lg)
      = lg @ map WriteData (if falsy chatId then [NEW_CHAT_CREATED cid] else [])
           @ [StreamText ms, MergeIntoDataStream] @ rest
    \<and> (\<forall>e. WriteData e \<notin> set rest)"
  by (cases "streamText ev ms") (simp_all add: execute_later_def Let_def)

lemma execute_later_response:
  "\<exists>content. response (execute_later ev s ms chatId cid d lg)
      = DataStreamResponse
          (map Data (if falsy chatId then [NEW_CHAT_CREATED cid] else []) @ content)
    \<and> (\<forall>e. Data e \<notin> set content)"
  by (cases "streamText ev ms") (auto simp: execute_later_def Let_def)

lemma upsertChat_fresh:
  "\<not> list_ex (\<lambda>r. chat_id r = chat_id c) (chats d) \<Longrightarrow> chats (snd (upsertChat c d)) = chats d @ [c]"
  by (simp add: upsertChat_def Let_def)

lemma find_fresh_append:
  "\<not> list_ex (\<lambda>r. chat_id r = chat_id c) xs \<Longrightarrow> chat_userId c = uid \<Longrightarrow>
     find (\<lambda>r. chat_id r = chat_id c \<and> chat_userId r = uid) (xs @ [c]) = Some c"
  by (induction xs) simp_all

text \<open>
  C7 (amended). In the later route, an authenticated request whose message list is
  empty is answered with status 400; the database is unchanged and no collaborator has
  been called: no chat record is created and the model is not invoked.
\<close>

theorem C7_empty_messages_400:
  assumes "body_messages b = []"
  shows "POST_later ev (Some s) b d
           = \<lparr>response = Response 400 ''No messages provided'', final_db = d, log = []\<rparr>
         \<and> chats (final_db (POST_later ev (Some s) b d)) = chats d
         \<and> \<not> list_ex is_db_write (log (POST_later ev (Some s) b d))
         \<and> \<not> list_ex is_model_call (log (POST_later ev (Some s) b d))"
proof -
  have "POST_later ev (Some s) b d
          = \<lparr>response = Response 400 ''No messages provided'', final_db = d, log = []\<rparr>"
    using assms by (simp add: POST_later_def)
  then show ?thesis by simp
qed

text \<open>
  The later route on an empty message list.
\<close>

theorem C7_empty_messages_400_witness:
  "body_messages \<lparr>body_messages = [], body_chatId = None\<rparr> = []
   \<and> POST_later sample_env (Some alice) \<lparr>body_messages = [], body_chatId = None\<rparr> sample_db
       = \<lparr>response = Response 400 ''No messages provided'', final_db = sample_db, log = []\<rparr>"
  using C7_empty_messages_400 [of "\<lparr>body_messages = [], body_chatId = None\<rparr>" sample_env alice sample_db]
  by simp

text \<open>
  The day-1 route has no check on the message list: on an empty list without a chat id
  it answers with a data stream, creates a chat titled \<open>New Chat\<close> and calls the
  model.
\<close>

theorem C7_empty_messages_400_counterexample:
  "response (POST_route sample_env (Some alice) \<lparr>body_messages = [], body_chatId = None\<rparr> sample_db)
     = DataStreamResponse [Data (NEW_CHAT_CREATED ''n0''), ModelContent ''Hi'']
   \<and> chats (final_db (POST_route sample_env (Some alice) \<lparr>body_messages = [], body_chatId = None\<rparr>
        sample_db))
     = [bobs_chat, alices_chat,
        \<lparr>chat_id = ''n0'', chat_userId = ''alice'', chat_title = ''New Chat'', chat_createdAt = 5\<rparr>]
   \<and> StreamText [] \<in> set (log (POST_route sample_env (Some alice)
        \<lparr>body_messages = [], body_chatId = None\<rparr> sample_db))"
  by (simp add: POST_route_def new_chat_route_def execute_route_def sample_env_def alice_def
      sample_db_def upsertChat_def title_route_def replace_messages_def insert_messages_def
      delete_messages_def bobs_chat_def alices_chat_def sample_merge_def Let_def)

text \<open>
  C2 (amended). In the later route, an authenticated request with a non-empty message
  list and a non-empty chat id that does not identify a chat owned by the caller is
  answered with status 404; the database is unchanged, and the only call made is the
  lookup of the chat: no database write, no model call, no streaming.
\<close>

theorem C2_foreign_chat_404:
  assumes "body_messages b \<noteq> []"
    and "body_chatId b = Some cid" and "cid \<noteq> []"
    and "\<not> list_ex (\<lambda>r. chat_id r = cid \<and> chat_userId r = session_user_id s) (chats d)"
  shows "POST_later ev (Some s) b d
           = \<lparr>response = Response 404 ''Chat not found or unauthorized'', final_db = d,
              log = [FindFirst cid]\<rparr>
         \<and> list_all (\<lambda>e. \<not> is_db_write e \<and> \<not> is_model_call e \<and> \<not> is_streaming e)
             (log (POST_later ev (Some s) b d))"
proof -
  have "chat_userId r \<noteq> session_user_id s" if "find (\<lambda>r. chat_id r = cid) (chats d) = Some r" for r
  proof -
    from that have "r \<in> set (chats d)" and "chat_id r = cid"
      by (auto simp: find_Some_iff)
    with assms(4) show ?thesis
      by (auto simp: list_ex_iff)
  qed
  then have "POST_later ev (Some s) b d
           = \<lparr>response = Response 404 ''Chat not found or unauthorized'', final_db = d,
              log = [FindFirst cid]\<rparr>"
    using assms(1-3) by (simp add: POST_later_def split: option.splits)
  then show ?thesis by simp
qed

text \<open>
  Alice asks for Bob's chat on the later route.
\<close>

theorem C2_foreign_chat_404_witness:
  "body_messages \<lparr>body_messages = [user_msg ''m1'' ''Hello''], body_chatId = Some ''c-bob''\<rparr> \<noteq> []
   \<and> \<not> list_ex (\<lambda>r. chat_id r = ''c-bob'' \<and> chat_userId r = session_user_id alice) (chats sample_db)
   \<and> POST_later sample_env (Some alice)
        \<lparr>body_messages = [user_msg ''m1'' ''Hello''], body_chatId = Some ''c-bob''\<rparr> sample_db
       = \<lparr>response = Response 404 ''Chat not found or unauthorized'', final_db = sample_db,
          log = [FindFirst ''c-bob'']\<rparr>"
proof -
  have h: "\<not> list_ex (\<lambda>r. chat_id r = ''c-bob'' \<and> chat_userId r = session_user_id alice) (chats sample_db)"
    by (simp add: sample_db_def bobs_chat_def alices_chat_def alice_def)
  show ?thesis
    using h C2_foreign_chat_404 [of "\<lparr>body_messages = [user_msg ''m1'' ''Hello''], body_chatId = Some ''c-bob''\<rparr>"
        "''c-bob''" alice sample_db sample_env]
    by simp
qed

text \<open>
  With an empty message list the later route answers 400, not 404. The day-1 route
  does not look the chat up at all: Alice's request on Bob's chat is streamed and the
  stored messages of Bob's chat are replaced.
\<close>

theorem C2_foreign_chat_404_counterexample:
  "POST_later sample_env (Some alice) \<lparr>body_messages = [], body_chatId = Some ''c-bob''\<rparr> sample_db
     = \<lparr>response = Response 400 ''No messages provided'', final_db = sample_db, log = []\<rparr>
   \<and> response (POST_route sample_env (Some alice)
        \<lparr>body_messages = [user_msg ''m1'' ''Hello''], body_chatId = Some ''c-bob''\<rparr> sample_db)
       = DataStreamResponse [ModelContent ''Hi'']
   \<and> filter (\<lambda>m. msg_chatId m = ''c-bob'') (messages (final_db (POST_route sample_env (Some alice)
        \<lparr>body_messages = [user_msg ''m1'' ''Hello''], body_chatId = Some ''c-bob''\<rparr> sample_db)))
       = [\<lparr>msg_id = ''m1'', msg_chatId = ''c-bob'', msg_role = ''user'',
           msg_parts = Some [TextPart ''Hello''], msg_order = 0, msg_createdAt = 6\<rparr>,
          \<lparr>msg_id = ''n0'', msg_chatId = ''c-bob'', msg_role = ''assistant'',
           msg_parts = Some [TextPart ''Hi''], msg_order = 1, msg_createdAt = 6\<rparr>]"
  by (simp add: POST_later_def POST_route_def execute_route_def sample_env_def alice_def
      sample_db_def replace_messages_def insert_messages_def user_msg_def old_row_def
      delete_messages_def bobs_chat_def alices_chat_def sample_merge_def Let_def)

lemma execute_route_completed_db:
  "streamText ev ms = Completed chunks rs \<Longrightarrow>
     final_db (execute_route ev ms isNew cid k d lg)
       = snd (replace_messages (nanoid ev) k (finish_time ev) cid (appendResponseMessages ev ms rs) d)"
  by (simp add: execute_route_def Let_def)

text \<open>
  The chat a request of the day-1 route works on: the one whose id the request supplied,
  if the caller owns it, or the one just created under a fresh id. \<open>k\<close> is the number of
  \<open>nanoid\<close> calls made before \<open>onFinish\<close>.
\<close>

lemma completed_turn_db:
  assumes turn: "streamText ev (body_messages b) = Completed chunks rs"
    and merged: "merged = appendResponseMessages ev (body_messages b) rs"
    and chat:
      "(body_chatId b = Some cid \<and> cid \<noteq> [] \<and> k = 0
          \<and> find (\<lambda>c. chat_id c = cid \<and> chat_userId c = session_user_id s) (chats d) = Some c)
       \<or> (falsy (body_chatId b) \<and> cid = nanoid ev 0 \<and> k = 1
          \<and> \<not> list_ex (\<lambda>r. chat_id r = cid) (chats d)
          \<and> c = \<lparr>chat_id = cid, chat_userId = session_user_id s,
                  chat_title = title_route (body_messages b), chat_createdAt = start_time ev\<rparr>)"
  shows "\<exists>d0. final_db (POST_route ev (Some s) b d)
                 = snd (replace_messages (nanoid ev) k (finish_time ev) cid merged d0)
              \<and> find (\<lambda>c. chat_id c = cid \<and> chat_userId c = session_user_id s) (chats d0) = Some c"
  using chat
proof (elim disjE conjE)
  assume a: "body_chatId b = Some cid" "cid \<noteq> []" "k = 0"
    and f: "find (\<lambda>c. chat_id c = cid \<and> chat_userId c = session_user_id s) (chats d) = Some c"
  have "final_db (POST_route ev (Some s) b d)
          = snd (replace_messages (nanoid ev) k (finish_time ev) cid merged d)"
    using a turn by (simp add: POST_route_supplied execute_route_completed_db merged)
  with f show ?thesis by blast
next
  assume a: "falsy (body_chatId b)" "cid = nanoid ev 0" "k = 1"
    and fresh: "\<not> list_ex (\<lambda>r. chat_id r = cid) (chats d)"
    and c: "c = \<lparr>chat_id = cid, chat_userId = session_user_id s,
                  chat_title = title_route (body_messages b), chat_createdAt = start_time ev\<rparr>"
  have db: "final_db (POST_route ev (Some s) b d)
          = snd (replace_messages (nanoid ev) k (finish_time ev) cid merged (snd (upsertChat c d)))"
    using a turn
    by (simp add: POST_route_new new_chat_route_def Let_def execute_route_completed_db merged c)
  have "chats (snd (upsertChat c d)) = chats d @ [c]"
    using fresh by (simp add: upsertChat_fresh c)
  moreover have "find (\<lambda>r. chat_id r = chat_id c \<and> chat_userId r = session_user_id s) (chats d @ [c])
                   = Some c"
    using fresh by (intro find_fresh_append) (simp_all add: c)
  ultimately have f: "find (\<lambda>r. chat_id r = cid \<and> chat_userId r = session_user_id s)
                        (chats (snd (upsertChat c d))) = Some c"
    by (simp add: c)
  with db show ?thesis by blast
qed

text \<open>
  After a completed turn of the day-1 route in which every merged message has parts,
  \<open>getChat\<close> returns the chat with exactly the rows of the merged list, in position
  order \<open>0, 1, ..., n - 1\<close>, however the store arranges the message table.
\<close>

lemma completed_turn_read_back:
  assumes turn: "streamText ev (body_messages b) = Completed chunks rs"
    and merged: "merged = appendResponseMessages ev (body_messages b) rs"
    and parts: "list_all (\<lambda>m. m_parts m \<noteq> None) merged"
    and chat:
      "(body_chatId b = Some cid \<and> cid \<noteq> [] \<and> k = 0
          \<and> find (\<lambda>c. chat_id c = cid \<and> chat_userId c = session_user_id s) (chats d) = Some c)
       \<or> (falsy (body_chatId b) \<and> cid = nanoid ev 0 \<and> k = 1
          \<and> \<not> list_ex (\<lambda>r. chat_id r = cid) (chats d)
          \<and> c = \<lparr>chat_id = cid, chat_userId = session_user_id s,
                  chat_title = title_route (body_messages b), chat_createdAt = start_time ev\<rparr>)"
    and same_chats: "chats d' = chats (final_db (POST_route ev (Some s) b d))"
    and same_rows: "mset (messages d') = mset (messages (final_db (POST_route ev (Some s) b d)))"
  shows "\<exists>rows. getChat cid (session_user_id s) d' = Some (c, rows)
           \<and> rows = message_rows (nanoid ev) k cid (finish_time ev) 0 merged
           \<and> length rows = length merged
           \<and> map msg_order rows = [0 ..< length merged]
           \<and> map msg_role rows = map m_role merged
           \<and> map msg_parts rows = map m_parts merged"
proof -
  obtain d0 where db: "final_db (POST_route ev (Some s) b d)
                 = snd (replace_messages (nanoid ev) k (finish_time ev) cid merged d0)"
    and f: "find (\<lambda>c. chat_id c = cid \<and> chat_userId c = session_user_id s) (chats d0) = Some c"
    using completed_turn_db [OF turn merged chat] by blast
  show ?thesis
    using getChat_replace_messages [OF f parts] same_chats same_rows unfolding db by blast
qed

text \<open>
  When some merged message has no parts, the insert is rejected after the delete:
  \<open>getChat\<close> returns the chat without any message.
\<close>

lemma partless_turn_read_back:
  assumes turn: "streamText ev (body_messages b) = Completed chunks rs"
    and merged: "merged = appendResponseMessages ev (body_messages b) rs"
    and partless: "\<not> list_all (\<lambda>m. m_parts m \<noteq> None) merged"
    and chat:
      "(body_chatId b = Some cid \<and> cid \<noteq> [] \<and> k = (0::nat)
          \<and> find (\<lambda>c. chat_id c = cid \<and> chat_userId c = session_user_id s) (chats d) = Some c)
       \<or> (falsy (body_chatId b) \<and> cid = nanoid ev 0 \<and> k = 1
          \<and> \<not> list_ex (\<lambda>r. chat_id r = cid) (chats d)
          \<and> c = \<lparr>chat_id = cid, chat_userId = session_user_id s,
                  chat_title = title_route (body_messages b), chat_createdAt = start_time ev\<rparr>)"
  shows "getChat cid (session_user_id s) (final_db (POST_route ev (Some s) b d)) = Some (c, [])"
proof -
  obtain d0 where db: "final_db (POST_route ev (Some s) b d)
                 = snd (replace_messages (nanoid ev) k (finish_time ev) cid merged d0)"
    and f: "find (\<lambda>c. chat_id c = cid \<and> chat_userId c = session_user_id s) (chats d0) = Some c"
    using completed_turn_db [OF turn merged chat] by blast
  show ?thesis
    unfolding db using f
    by (simp add: getChat_def replace_messages_chats replace_messages_of_chat_rejected [OF partless])
qed

text \<open>
  C1. The read-back after a completed turn is not always the merged list. A first
  request without chat id whose only message has content but no parts (the message type
  makes parts optional): the day-1 route creates the chat, the model completes the turn,
  the merged list has two messages, and \<open>onFinish\<close> deletes the rows of the chat and
  then has its insert rejected, because the column \<open>parts\<close> is NOT NULL. \<open>getChat\<close>
  returns the new chat with no message. The same request on Alice's chat, which held
  one message, leaves her chat with no message at all.
\<close>

theorem C1_partless_message_lost:
  "streamText sample_env [partless_msg ''m1'' ''Hello'']
     = Completed [''Hi''] [\<lparr>rm_id = [], rm_role = ''assistant'', rm_parts = [TextPart ''Hi'']\<rparr>]
   \<and> length (appendResponseMessages sample_env [partless_msg ''m1'' ''Hello'']
               [\<lparr>rm_id = [], rm_role = ''assistant'', rm_parts = [TextPart ''Hi'']\<rparr>]) = 2
   \<and> getChat ''n0'' ''alice''
         (final_db (POST_route sample_env (Some alice)
            \<lparr>body_messages = [partless_msg ''m1'' ''Hello''], body_chatId = None\<rparr> sample_db))
       = Some (\<lparr>chat_id = ''n0'', chat_userId = ''alice'', chat_title = ''Hello'',
                 chat_createdAt = 5\<rparr>, [])
   \<and> getChat ''c-alice'' ''alice'' sample_db = Some (alices_chat, [old_row ''c-alice''])
   \<and> getChat ''c-alice'' ''alice''
         (final_db (POST_route sample_env (Some alice)
            \<lparr>body_messages = [partless_msg ''m1'' ''Hello''], body_chatId = Some ''c-alice''\<rparr>
            sample_db))
       = Some (alices_chat, [])
   \<and> last (log (POST_route sample_env (Some alice)
            \<lparr>body_messages = [partless_msg ''m1'' ''Hello''], body_chatId = Some ''c-alice''\<rparr>
            sample_db))
       = Threw ''null value in column parts violates not-null constraint''"
  by (simp add: POST_route_def new_chat_route_def execute_route_def replace_messages_def
      insert_messages_def delete_messages_def getChat_def upsertChat_def title_route_def
      sample_env_def sample_merge_def sample_db_def alice_def alices_chat_def bobs_chat_def
      old_row_def partless_msg_def Let_def)

text \<open>
  C4 (amended). Without a chat id, the day-1 route creates the chat with the first 40
  characters of the content of the first message of the list, whatever its role, or with
  \<open>New Chat\<close> when the list or that content is empty; the later route (on a
  non-empty list) passes the first 50 characters of the content of the last message,
  followed by three dots.
\<close>

theorem C4_new_chat_title:
  assumes "falsy (body_chatId b)"
  shows "(\<exists>rest. log (POST_route ev (Some s) b d)
            = UpsertChat
                \<lparr>chat_id = nanoid ev 0, chat_userId = session_user_id s,
                 chat_title =
                   (if body_messages b = [] \<or> m_content (hd (body_messages b)) = []
                    then ''New Chat'' else take 40 (m_content (hd (body_messages b)))),
                 chat_createdAt = start_time ev\<rparr> # rest)
         \<and> (body_messages b \<noteq> [] \<longrightarrow>
              (\<exists>rest. log (POST_later ev (Some s) b d)
                 = QueriesUpsertChat
                     \<lparr>opt_userId = session_user_id s, opt_chatId = randomUUID ev,
                      opt_title = take 50 (m_content (last (body_messages b))) @ ''...'',
                      opt_messages = body_messages b\<rparr> # rest))"
proof (intro conjI impI)
  have t: "title_route (body_messages b)
             = (if body_messages b = [] \<or> m_content (hd (body_messages b)) = []
                then ''New Chat'' else take 40 (m_content (hd (body_messages b))))"
    by (cases "body_messages b") (simp_all add: title_route_def)
  obtain rest where "log (execute_route ev (body_messages b) True (nanoid ev 0) 1
        (snd (upsertChat \<lparr>chat_id = nanoid ev 0, chat_userId = session_user_id s,
                 chat_title = title_route (body_messages b), chat_createdAt = start_time ev\<rparr> d))
        [UpsertChat \<lparr>chat_id = nanoid ev 0, chat_userId = session_user_id s,
                 chat_title = title_route (body_messages b), chat_createdAt = start_time ev\<rparr>])
      = [UpsertChat \<lparr>chat_id = nanoid ev 0, chat_userId = session_user_id s,
                 chat_title = title_route (body_messages b), chat_createdAt = start_time ev\<rparr>] @ rest"
    using execute_route_log by blast
  then show "\<exists>rest. log (POST_route ev (Some s) b d)
            = UpsertChat
                \<lparr>chat_id = nanoid ev 0, chat_userId = session_user_id s,
                 chat_title =
                   (if body_messages b = [] \<or> m_content (hd (body_messages b)) = []
                    then ''New Chat'' else take 40 (m_content (hd (body_messages b)))),
                 chat_createdAt = start_time ev\<rparr> # rest"
    using assms by (simp add: POST_route_new new_chat_route_def Let_def t)
next
  assume ne: "body_messages b \<noteq> []"
  let ?opts = "\<lparr>opt_userId = session_user_id s, opt_chatId = randomUUID ev,
                      opt_title = take 50 (m_content (last (body_messages b))) @ ''...'',
                      opt_messages = body_messages b\<rparr>"
  obtain rest where "log (execute_later ev s (body_messages b) (body_chatId b) (randomUUID ev)
         (queries_upsertChat ev ?opts d)
         [QueriesUpsertChat ?opts, LangfuseTrace (randomUUID ev) (session_user_id s)])
      = [QueriesUpsertChat ?opts, LangfuseTrace (randomUUID ev) (session_user_id s)] @ rest"
    using execute_later_log by blast
  then show "\<exists>rest. log (POST_later ev (Some s) b d) = QueriesUpsertChat ?opts # rest"
    using assms ne by (simp add: POST_later_new new_chat_later_def Let_def title_later_def)
qed

text \<open>
  Both routes on a list that starts with an assistant message.
\<close>

theorem C4_new_chat_title_witness:
  "falsy (body_chatId \<lparr>body_messages = [assistant_msg ''m0'' ''Welcome'', user_msg ''m1'' ''Hello''],
                       body_chatId = None\<rparr>)
   \<and> hd (log (POST_route sample_env (Some alice)
        \<lparr>body_messages = [assistant_msg ''m0'' ''Welcome'', user_msg ''m1'' ''Hello''],
         body_chatId = None\<rparr> sample_db))
       = UpsertChat \<lparr>chat_id = ''n0'', chat_userId = ''alice'', chat_title = ''Welcome'',
                     chat_createdAt = 5\<rparr>
   \<and> hd (log (POST_later sample_env (Some alice)
        \<lparr>body_messages = [assistant_msg ''m0'' ''Welcome'', user_msg ''m1'' ''Hello''],
         body_chatId = None\<rparr> sample_db))
       = QueriesUpsertChat \<lparr>opt_userId = ''alice'', opt_chatId = ''uuid'', opt_title = ''Hello...'',
            opt_messages = [assistant_msg ''m0'' ''Welcome'', user_msg ''m1'' ''Hello'']\<rparr>"
proof -
  let ?b = "\<lparr>body_messages = [assistant_msg ''m0'' ''Welcome'', user_msg ''m1'' ''Hello''],
             body_chatId = None\<rparr>"
  have h: "falsy (body_chatId ?b)"
    by (simp add: falsy_def)
  show ?thesis
    using h C4_new_chat_title [OF h, of sample_env alice sample_db]
    by (auto simp: sample_env_def alice_def assistant_msg_def user_msg_def)
qed

text \<open>
  The later route titles the chat after the last message, with three dots appended, not
  after the first user message; the day-1 route titles it after the first message even
  when that is not a user message.
\<close>

theorem C4_new_chat_title_counterexample:
  "hd (log (POST_later sample_env (Some alice)
        \<lparr>body_messages = [user_msg ''m1'' ''first'', assistant_msg ''m2'' ''reply'',
                          user_msg ''m3'' ''second''],
         body_chatId = None\<rparr> sample_db))
     = QueriesUpsertChat \<lparr>opt_userId = ''alice'', opt_chatId = ''uuid'', opt_title = ''second...'',
          opt_messages = [user_msg ''m1'' ''first'', assistant_msg ''m2'' ''reply'',
                          user_msg ''m3'' ''second'']\<rparr>
   \<and> hd (log (POST_route sample_env (Some alice)
        \<lparr>body_messages = [assistant_msg ''m0'' ''Welcome'', user_msg ''m1'' ''Hello''],
         body_chatId = None\<rparr> sample_db))
       = UpsertChat \<lparr>chat_id = ''n0'', chat_userId = ''alice'', chat_title = ''Welcome'',
                     chat_createdAt = 5\<rparr>"
  by (simp add: POST_later_def new_chat_later_def execute_later_def POST_route_def
      new_chat_route_def execute_route_def title_route_def title_later_def falsy_def
      sample_env_def alice_def user_msg_def assistant_msg_def Let_def)

lemma title_route_length: "length (title_route ms) \<le> 40"
  by (cases ms) (simp_all add: title_route_def)

lemma title_later_length: "length (title_later ms) \<le> 53"
  by (simp add: title_later_def)

lemma POST_route_supplied_no_event:
  assumes "body_chatId b = Some c" and "c \<noteq> []"
  shows "WriteData e \<notin> set (log (POST_route ev (Some s) b d))
         \<and> (\<forall>parts. response (POST_route ev (Some s) b d) = DataStreamResponse parts
               \<longrightarrow> Data e \<notin> set parts)"
  using assms execute_route_log [of ev "body_messages b" False c 0 d "[]"]
    execute_route_response [of ev "body_messages b" False c 0 d "[]"]
  by (auto simp: POST_route_supplied)

lemma POST_later_supplied_no_event:
  assumes "body_chatId b = Some c" and "c \<noteq> []"
  shows "WriteData e \<notin> set (log (POST_later ev (Some s) b d))
         \<and> (\<forall>parts. response (POST_later ev (Some s) b d) = DataStreamResponse parts
               \<longrightarrow> Data e \<notin> set parts)"
proof -
  have nf: "\<not> falsy (Some c)"
    using assms(2) by (simp add: falsy_def)
  let ?run = "execute_later ev s (body_messages b) (Some c) c d
                [FindFirst c, LangfuseTrace c (session_user_id s)]"
  have run: "WriteData e \<notin> set (log ?run)
             \<and> (\<forall>parts. response ?run = DataStreamResponse parts \<longrightarrow> Data e \<notin> set parts)"
    using nf execute_later_log [of ev s "body_messages b" "Some c" c d
              "[FindFirst c, LangfuseTrace c (session_user_id s)]"]
      execute_later_response [of ev s "body_messages b" "Some c" c d
              "[FindFirst c, LangfuseTrace c (session_user_id s)]"]
    by auto
  show ?thesis
  proof (cases "body_messages b = []")
    case True
    then show ?thesis by (simp add: POST_later_def)
  next
    case ne: False
    show ?thesis
    proof (cases "find (\<lambda>r. chat_id r = c) (chats d)")
      case None
      then show ?thesis using ne assms by (simp add: POST_later_def)
    next
      case (Some r)
      show ?thesis
      proof (cases "chat_userId r = session_user_id s")
        case True
        then have "POST_later ev (Some s) b d = ?run"
          using ne assms Some by (simp add: POST_later_def)
        then show ?thesis using run by simp
      next
        case False
        then show ?thesis using ne assms Some by (simp add: POST_later_def)
      qed
    qed
  qed
qed

text \<open>
  C6 (amended). For an authenticated request without a chat id (absent or empty):
  the day-1 route first upserts the chat row with the truncated title (at most 40
  characters; the row is appended when the minted id is fresh), then writes
  \<open>NEW_CHAT_CREATED\<close> with the minted id, then calls the model and merges its
  stream, so that the event is the first part of the response and the only data event;
  the later route does the same when the message list is not empty, with a title of at
  most 53 characters. For a request with a non-empty chat id neither route writes such
  an event.
\<close>

theorem C6_new_chat_announcement:
  "(falsy (body_chatId b) \<and> nanoid ev 0 \<noteq> [] \<longrightarrow>
      (\<exists>rest content.
         log (POST_route ev (Some s) b d)
           = [UpsertChat \<lparr>chat_id = nanoid ev 0, chat_userId = session_user_id s,
                          chat_title = title_route (body_messages b),
                          chat_createdAt = start_time ev\<rparr>,
              WriteData (NEW_CHAT_CREATED (nanoid ev 0)),
              StreamText (body_messages b), MergeIntoDataStream] @ rest
         \<and> response (POST_route ev (Some s) b d)
             = DataStreamResponse (Data (NEW_CHAT_CREATED (nanoid ev 0)) # content)
         \<and> (\<forall>e. WriteData e \<notin> set rest) \<and> (\<forall>e. Data e \<notin> set content)
         \<and> length (title_route (body_messages b)) \<le> 40
         \<and> (\<not> list_ex (\<lambda>r. chat_id r = nanoid ev 0) (chats d) \<longrightarrow>
              chats (final_db (POST_route ev (Some s) b d))
                = chats d @ [\<lparr>chat_id = nanoid ev 0, chat_userId = session_user_id s,
                               chat_title = title_route (body_messages b),
                               chat_createdAt = start_time ev\<rparr>])))
   \<and> (falsy (body_chatId b) \<and> body_messages b \<noteq> [] \<longrightarrow>
      (\<exists>rest content.
         log (POST_later ev (Some s) b d)
           = [QueriesUpsertChat \<lparr>opt_userId = session_user_id s, opt_chatId = randomUUID ev,
                                 opt_title = title_later (body_messages b),
                                 opt_messages = body_messages b\<rparr>,
              LangfuseTrace (randomUUID ev) (session_user_id s),
              WriteData (NEW_CHAT_CREATED (randomUUID ev)),
              StreamText (body_messages b), MergeIntoDataStream] @ rest
         \<and> response (POST_later ev (Some s) b d)
             = DataStreamResponse (Data (NEW_CHAT_CREATED (randomUUID ev)) # content)
         \<and> (\<forall>e. WriteData e \<notin> set rest) \<and> (\<forall>e. Data e \<notin> set content)
         \<and> length (title_later (body_messages b)) \<le> 53))
   \<and> (\<not> falsy (body_chatId b) \<longrightarrow>
        (\<forall>e. WriteData e \<notin> set (log (POST_route ev (Some s) b d))
           \<and> WriteData e \<notin> set (log (POST_later ev (Some s) b d))
           \<and> (\<forall>parts. response (POST_route ev (Some s) b d) = DataStreamResponse parts
                 \<longrightarrow> Data e \<notin> set parts)
           \<and> (\<forall>parts. response (POST_later ev (Some s) b d) = DataStreamResponse parts
                 \<longrightarrow> Data e \<notin> set parts)))"
proof (intro conjI impI)
  assume a: "falsy (body_chatId b) \<and> nanoid ev 0 \<noteq> []"
  let ?row = "\<lparr>chat_id = nanoid ev 0, chat_userId = session_user_id s,
               chat_title = title_route (body_messages b), chat_createdAt = start_time ev\<rparr>"
  let ?run = "execute_route ev (body_messages b) True (nanoid ev 0) 1 (snd (upsertChat ?row d))
                [UpsertChat ?row]"
  have eq: "POST_route ev (Some s) b d = ?run"
    using a by (simp add: POST_route_new new_chat_route_def Let_def)
  obtain rest where rest: "log ?run
      = [UpsertChat ?row, WriteData (NEW_CHAT_CREATED (nanoid ev 0)),
         StreamText (body_messages b), MergeIntoDataStream] @ rest"
    and rest_no: "\<forall>e. WriteData e \<notin> set rest"
    using a execute_route_log [of ev "body_messages b" True "nanoid ev 0" 1
                 "snd (upsertChat ?row d)" "[UpsertChat ?row]"]
    by auto
  obtain content where content: "response ?run
      = DataStreamResponse (Data (NEW_CHAT_CREATED (nanoid ev 0)) # content)"
    and content_no: "\<forall>e. Data e \<notin> set content"
    using a execute_route_response [of ev "body_messages b" True "nanoid ev 0" 1
                 "snd (upsertChat ?row d)" "[UpsertChat ?row]"]
    by auto
  have fresh: "\<not> list_ex (\<lambda>r. chat_id r = nanoid ev 0) (chats d) \<longrightarrow>
                 chats (final_db ?run) = chats d @ [?row]"
    by (simp add: execute_route_chats upsertChat_fresh)
  show "\<exists>rest content.
         log (POST_route ev (Some s) b d)
           = [UpsertChat ?row, WriteData (NEW_CHAT_CREATED (nanoid ev 0)),
              StreamText (body_messages b), MergeIntoDataStream] @ rest
         \<and> response (POST_route ev (Some s) b d)
             = DataStreamResponse (Data (NEW_CHAT_CREATED (nanoid ev 0)) # content)
         \<and> (\<forall>e. WriteData e \<notin> set rest) \<and> (\<forall>e. Data e \<notin> set content)
         \<and> length (title_route (body_messages b)) \<le> 40
         \<and> (\<not> list_ex (\<lambda>r. chat_id r = nanoid ev 0) (chats d) \<longrightarrow>
              chats (final_db (POST_route ev (Some s) b d)) = chats d @ [?row])"
    unfolding eq using rest rest_no content content_no fresh title_route_length by blast
next
  assume a: "falsy (body_chatId b) \<and> body_messages b \<noteq> []"
  let ?opts = "\<lparr>opt_userId = session_user_id s, opt_chatId = randomUUID ev,
                opt_title = title_later (body_messages b), opt_messages = body_messages b\<rparr>"
  let ?lg = "[QueriesUpsertChat ?opts, LangfuseTrace (randomUUID ev) (session_user_id s)]"
  let ?run = "execute_later ev s (body_messages b) (body_chatId b) (randomUUID ev)
                (queries_upsertChat ev ?opts d) ?lg"
  have eq: "POST_later ev (Some s) b d = ?run"
    using a by (simp add: POST_later_new new_chat_later_def Let_def)
  obtain rest where rest: "log ?run
      = [QueriesUpsertChat ?opts, LangfuseTrace (randomUUID ev) (session_user_id s),
         WriteData (NEW_CHAT_CREATED (randomUUID ev)),
         StreamText (body_messages b), MergeIntoDataStream] @ rest"
    and rest_no: "\<forall>e. WriteData e \<notin> set rest"
    using a execute_later_log [of ev s "body_messages b" "body_chatId b" "randomUUID ev"
                 "queries_upsertChat ev ?opts d" ?lg]
    by auto
  obtain content where content: "response ?run
      = DataStreamResponse (Data (NEW_CHAT_CREATED (randomUUID ev)) # content)"
    and content_no: "\<forall>e. Data e \<notin> set content"
    using a execute_later_response [of ev s "body_messages b" "body_chatId b" "randomUUID ev"
                 "queries_upsertChat ev ?opts d" ?lg]
    by auto
  show "\<exists>rest content.
         log (POST_later ev (Some s) b d)
           = [QueriesUpsertChat ?opts, LangfuseTrace (randomUUID ev) (session_user_id s),
              WriteData (NEW_CHAT_CREATED (randomUUID ev)),
              StreamText (body_messages b), MergeIntoDataStream] @ rest
         \<and> response (POST_later ev (Some s) b d)
             = DataStreamResponse (Data (NEW_CHAT_CREATED (randomUUID ev)) # content)
         \<and> (\<forall>e. WriteData e \<notin> set rest) \<and> (\<forall>e. Data e \<notin> set content)
         \<and> length (title_later (body_messages b)) \<le> 53"
    unfolding eq using rest rest_no content content_no title_later_length by blast
next
  assume "\<not> falsy (body_chatId b)"
  then obtain c where c: "body_chatId b = Some c" "c \<noteq> []"
    by (auto simp: not_falsy)
  show "\<forall>e. WriteData e \<notin> set (log (POST_route ev (Some s) b d))
           \<and> WriteData e \<notin> set (log (POST_later ev (Some s) b d))
           \<and> (\<forall>parts. response (POST_route ev (Some s) b d) = DataStreamResponse parts
                 \<longrightarrow> Data e \<notin> set parts)
           \<and> (\<forall>parts. response (POST_later ev (Some s) b d) = DataStreamResponse parts
                 \<longrightarrow> Data e \<notin> set parts)"
    using POST_route_supplied_no_event [OF c] POST_later_supplied_no_event [OF c] by blast
qed

text \<open>
  Without a chat id and with an empty message list the later route answers 400 and
  writes no event; and an empty chat id counts as none, so the day-1 route announces a
  new chat although the request carried a chat id.
\<close>

theorem C6_new_chat_announcement_counterexample:
  "POST_later sample_env (Some alice) \<lparr>body_messages = [], body_chatId = None\<rparr> sample_db
     = \<lparr>response = Response 400 ''No messages provided'', final_db = sample_db, log = []\<rparr>
   \<and> response (POST_route sample_env (Some alice)
        \<lparr>body_messages = [user_msg ''m1'' ''Hello''], body_chatId = Some []\<rparr> sample_db)
       = DataStreamResponse [Data (NEW_CHAT_CREATED ''n0''), ModelContent ''Hi'']"
  by (simp add: POST_later_def POST_route_def new_chat_route_def execute_route_def sample_env_def
      Let_def)

text \<open>
  A first message without a chat id, and a message on Alice's chat.
\<close>

theorem C6_new_chat_announcement_witness:
  "falsy (body_chatId \<lparr>body_messages = [user_msg ''m1'' ''Hello''], body_chatId = None\<rparr>)
   \<and> nanoid sample_env 0 \<noteq> []
   \<and> \<not> list_ex (\<lambda>r. chat_id r = nanoid sample_env 0) (chats sample_db)
   \<and> take 2 (log (POST_route sample_env (Some alice)
        \<lparr>body_messages = [user_msg ''m1'' ''Hello''], body_chatId = None\<rparr> sample_db))
       = [UpsertChat \<lparr>chat_id = ''n0'', chat_userId = ''alice'', chat_title = ''Hello'',
                      chat_createdAt = 5\<rparr>,
          WriteData (NEW_CHAT_CREATED ''n0'')]
   \<and> chats (final_db (POST_route sample_env (Some alice)
        \<lparr>body_messages = [user_msg ''m1'' ''Hello''], body_chatId = None\<rparr> sample_db))
       = [bobs_chat, alices_chat,
          \<lparr>chat_id = ''n0'', chat_userId = ''alice'', chat_title = ''Hello'', chat_createdAt = 5\<rparr>]
   \<and> take 3 (log (POST_later sample_env (Some alice)
        \<lparr>body_messages = [user_msg ''m1'' ''Hello''], body_chatId = None\<rparr> sample_db))
       = [QueriesUpsertChat \<lparr>opt_userId = ''alice'', opt_chatId = ''uuid'', opt_title = ''Hello...'',
                             opt_messages = [user_msg ''m1'' ''Hello'']\<rparr>,
          LangfuseTrace ''uuid'' ''alice'',
          WriteData (NEW_CHAT_CREATED ''uuid'')]
   \<and> \<not> falsy (body_chatId \<lparr>body_messages = [user_msg ''m1'' ''Hello''], body_chatId = Some ''c-alice''\<rparr>)
   \<and> WriteData (NEW_CHAT_CREATED ''c-alice'') \<notin> set (log (POST_route sample_env (Some alice)
        \<lparr>body_messages = [user_msg ''m1'' ''Hello''], body_chatId = Some ''c-alice''\<rparr> sample_db))
   \<and> WriteData (NEW_CHAT_CREATED ''c-alice'') \<notin> set (log (POST_later sample_env (Some alice)
        \<lparr>body_messages = [user_msg ''m1'' ''Hello''], body_chatId = Some ''c-alice''\<rparr> sample_db))"
proof -
  let ?new = "\<lparr>body_messages = [user_msg ''m1'' ''Hello''], body_chatId = None\<rparr>"
  let ?old = "\<lparr>body_messages = [user_msg ''m1'' ''Hello''], body_chatId = Some ''c-alice''\<rparr>"
  have h1: "falsy (body_chatId ?new)" and h2: "nanoid sample_env 0 \<noteq> []"
    and h3: "\<not> list_ex (\<lambda>r. chat_id r = nanoid sample_env 0) (chats sample_db)"
    and h4: "body_messages ?new \<noteq> []" and h5: "\<not> falsy (body_chatId ?old)"
    by (simp_all add: falsy_def sample_env_def sample_db_def bobs_chat_def alices_chat_def)
  have t: "title_route [user_msg ''m1'' ''Hello''] = ''Hello''"
    "title_later [user_msg ''m1'' ''Hello''] = ''Hello...''"
    by (simp_all add: title_route_def title_later_def user_msg_def)
  note new = C6_new_chat_announcement [of ?new sample_env alice sample_db]
  note old = C6_new_chat_announcement [of ?old sample_env alice sample_db]
  have a: "take 2 (log (POST_route sample_env (Some alice) ?new sample_db))
       = [UpsertChat \<lparr>chat_id = ''n0'', chat_userId = ''alice'', chat_title = ''Hello'',
                      chat_createdAt = 5\<rparr>,
          WriteData (NEW_CHAT_CREATED ''n0'')]"
    and b: "chats (final_db (POST_route sample_env (Some alice) ?new sample_db))
       = [bobs_chat, alices_chat,
          \<lparr>chat_id = ''n0'', chat_userId = ''alice'', chat_title = ''Hello'', chat_createdAt = 5\<rparr>]"
    using new h1 h2 h3 t by (auto simp: sample_env_def alice_def sample_db_def)
  have c: "take 3 (log (POST_later sample_env (Some alice) ?new sample_db))
       = [QueriesUpsertChat \<lparr>opt_userId = ''alice'', opt_chatId = ''uuid'', opt_title = ''Hello...'',
                             opt_messages = [user_msg ''m1'' ''Hello'']\<rparr>,
          LangfuseTrace ''uuid'' ''alice'',
          WriteData (NEW_CHAT_CREATED ''uuid'')]"
    using new h1 h4 t by (auto simp: sample_env_def alice_def)
  have d: "WriteData (NEW_CHAT_CREATED ''c-alice'') \<notin> set (log (POST_route sample_env (Some alice) ?old sample_db))"
    "WriteData (NEW_CHAT_CREATED ''c-alice'') \<notin> set (log (POST_later sample_env (Some alice) ?old sample_db))"
    using old h5 by blast+
  show ?thesis
    using h1 h2 h3 h5 a b c d by (intro conjI)
qed

end
